theory Spec2Isabelle
  imports Complex_Main
begin

section \<open>Arrays\<close>

text \<open>
  The program works on JAX arrays of complex numbers.  An array is modelled by its shape
  and its entries in row-major order; the entries are exact complex numbers (rounding,
  infinities and NaN of the machine arithmetic are not modelled).  An operation that
  raises in the program returns \<open>Inl\<close> of an error.  The errors are coarse: \<open>ShapeError\<close>
  stands for every exception raised because shapes or extents do not fit (a failed
  reshape, broadcast, unpacking or stacking), \<open>IndexError\<close> for indexing where there is
  nothing to index, \<open>KeyError\<close> for a missing dictionary key, and \<open>SolverError\<close> for a
  failure reported by the integrator.
\<close>

datatype error = KeyError string | ShapeError | IndexError | SolverError nat

datatype ndarray = NDArray (shape: "nat list") (data: "complex list")

definition well_shaped :: "ndarray \<Rightarrow> bool" where
  "well_shaped a \<longleftrightarrow> length (data a) = prod_list (shape a)"

fun ebind :: "error + 'a \<Rightarrow> ('a \<Rightarrow> error + 'b) \<Rightarrow> error + 'b" where
  "ebind (Inl e) f = Inl e"
| "ebind (Inr x) f = f x"

definition scalar :: "complex \<Rightarrow> ndarray" where
  "scalar c = NDArray [] [c]"

definition zeros :: "nat list \<Rightarrow> ndarray" where
  "zeros s = NDArray s (replicate (prod_list s) 0)"

definition neg :: "ndarray \<Rightarrow> ndarray" where
  "neg a = NDArray (shape a) (map uminus (data a))"

subsection \<open>Broadcasting\<close>

text \<open>Shapes are aligned at their last axis; two extents agree when they are equal or
  one of them is 1.\<close>

fun broadcast_rev :: "nat list \<Rightarrow> nat list \<Rightarrow> nat list option" where
  "broadcast_rev [] ys = Some ys"
| "broadcast_rev xs [] = Some xs"
| "broadcast_rev (x # xs) (y # ys) =
     (if x = y \<or> y = 1 then map_option ((#) x) (broadcast_rev xs ys)
      else if x = 1 then map_option ((#) y) (broadcast_rev xs ys)
      else None)"

definition broadcast_shapes :: "nat list \<Rightarrow> nat list \<Rightarrow> nat list option" where
  "broadcast_shapes s1 s2 = map_option rev (broadcast_rev (rev s1) (rev s2))"

text \<open>
  A shape of lower rank is padded with leading ones.  \<open>rows d n xs\<close> cuts \<open>xs\<close> into its
  \<open>d\<close> consecutive blocks of \<open>n\<close> entries, and \<open>broadcast_data ds ts xs\<close> repeats the entries
  of an array of shape \<open>ds\<close> to fill the shape \<open>ts\<close> of the same rank: an axis of extent 1
  is repeated, an axis of the target's extent is kept.
\<close>

definition pad_shape :: "nat \<Rightarrow> nat list \<Rightarrow> nat list" where
  "pad_shape r s = replicate (r - length s) 1 @ s"

definition rows :: "nat \<Rightarrow> nat \<Rightarrow> 'a list \<Rightarrow> 'a list list" where
  "rows d n xs = map (\<lambda>i. take n (drop (i * n) xs)) [0..<d]"

fun broadcast_data :: "nat list \<Rightarrow> nat list \<Rightarrow> 'a list \<Rightarrow> 'a list" where
  "broadcast_data (d # ds) (t # ts) xs =
     (if d = t then concat (map (broadcast_data ds ts) (rows d (prod_list ds) xs))
      else concat (replicate t (broadcast_data ds ts xs)))"
| "broadcast_data [] ts xs = xs"
| "broadcast_data ds [] xs = xs"

text \<open>An elementwise binary operation: both operands are broadcast to the common shape;
  it raises when the shapes are incompatible.\<close>

definition bop :: "(complex \<Rightarrow> complex \<Rightarrow> complex) \<Rightarrow> ndarray \<Rightarrow> ndarray \<Rightarrow> error + ndarray" where
  "bop f a b =
     (case broadcast_shapes (shape a) (shape b) of
        None \<Rightarrow> Inl ShapeError
      | Some s \<Rightarrow>
          Inr (NDArray s
                (map2 f (broadcast_data (pad_shape (length s) (shape a)) s (data a))
                        (broadcast_data (pad_shape (length s) (shape b)) s (data b)))))"

definition mul :: "ndarray \<Rightarrow> ndarray \<Rightarrow> error + ndarray" where
  "mul = bop (*)"

definition sub :: "ndarray \<Rightarrow> ndarray \<Rightarrow> error + ndarray" where
  "sub = bop (-)"

definition divide_arr :: "ndarray \<Rightarrow> ndarray \<Rightarrow> error + ndarray" where
  "divide_arr = bop (/)"

subsection \<open>Leading axis\<close>

text \<open>\<open>subarray a i\<close> is \<open>a[i]\<close> for an index already known to be in range.\<close>

definition subarray :: "ndarray \<Rightarrow> nat \<Rightarrow> ndarray" where
  "subarray a i =
     (let r = tl (shape a); n = prod_list r
      in NDArray r (take n (drop (i * n) (data a))))"

text \<open>\<open>x, y, z = a\<close>: iteration over the leading axis, which must have extent 3.\<close>

definition unpack3 :: "ndarray \<Rightarrow> error + (ndarray \<times> ndarray \<times> ndarray)" where
  "unpack3 a =
     (case shape a of
        [] \<Rightarrow> Inl ShapeError
      | d # r \<Rightarrow> if d = 3 then Inr (subarray a 0, subarray a 1, subarray a 2)
                 else Inl ShapeError)"

text \<open>\<open>jnp.array([a, b, c])\<close>: the three arrays are stacked along a new leading axis.\<close>

definition stack3 :: "ndarray \<Rightarrow> ndarray \<Rightarrow> ndarray \<Rightarrow> error + ndarray" where
  "stack3 a b c =
     (if shape a = shape b \<and> shape b = shape c
      then Inr (NDArray (3 # shape a) (data a @ data b @ data c))
      else Inl ShapeError)"

subsection \<open>Slices, indexing, concatenation and reshape\<close>

text \<open>\<open>xs.reshape(s)\<close> raises unless the number of entries is the product of \<open>s\<close>.\<close>

definition reshape :: "complex list \<Rightarrow> nat list \<Rightarrow> error + ndarray" where
  "reshape xs s = (if length xs = prod_list s then Inr (NDArray s xs) else Inl ShapeError)"

text \<open>\<open>a[:n]\<close> and \<open>a[n:]\<close> along the leading axis.\<close>

definition slice_to :: "nat \<Rightarrow> ndarray \<Rightarrow> error + ndarray" where
  "slice_to n a =
     (case shape a of
        [] \<Rightarrow> Inl IndexError
      | d # r \<Rightarrow> Inr (NDArray (min n d # r) (take (min n d * prod_list r) (data a))))"

definition slice_from :: "nat \<Rightarrow> ndarray \<Rightarrow> error + ndarray" where
  "slice_from n a =
     (case shape a of
        [] \<Rightarrow> Inl IndexError
      | d # r \<Rightarrow> Inr (NDArray ((d - n) # r) (drop (min n d * prod_list r) (data a))))"

text \<open>\<open>a[0]\<close>.\<close>

definition index0 :: "ndarray \<Rightarrow> error + ndarray" where
  "index0 a =
     (case shape a of
        [] \<Rightarrow> Inl IndexError
      | d # r \<Rightarrow> if d = 0 then Inl IndexError else Inr (subarray a 0))"

text \<open>\<open>jnp.concatenate([a, b], axis=0)\<close>.\<close>

definition concatenate0 :: "ndarray \<Rightarrow> ndarray \<Rightarrow> error + ndarray" where
  "concatenate0 a b =
     (case (shape a, shape b) of
        (d1 # r1, d2 # r2) \<Rightarrow>
          if r1 = r2 then Inr (NDArray ((d1 + d2) # r1) (data a @ data b)) else Inl ShapeError
      | _ \<Rightarrow> Inl ShapeError)"

section \<open>cross_product\<close>

text \<open>The expression \<open>a * b - c * d\<close> on arrays, evaluated left to right.\<close>

definition mul_sub :: "ndarray \<Rightarrow> ndarray \<Rightarrow> ndarray \<Rightarrow> ndarray \<Rightarrow> error + ndarray" where
  "mul_sub a b c d = ebind (mul a b) (\<lambda>p. ebind (mul c d) (\<lambda>q. sub p q))"

definition cross_product :: "ndarray \<Rightarrow> ndarray \<Rightarrow> error + ndarray" where
  "cross_product k_vec F_vec =
     ebind (unpack3 k_vec) (\<lambda>(kx, ky, kz).
     ebind (unpack3 F_vec) (\<lambda>(Fx, Fy, Fz).
     ebind (mul_sub ky Fz kz Fy) (\<lambda>c0.
     ebind (mul_sub kz Fx kx Fz) (\<lambda>c1.
     ebind (mul_sub kx Fy ky Fx) (\<lambda>c2.
     stack3 c0 c1 c2)))))"

section \<open>ode_system\<close>

text \<open>
  The tuple \<open>args\<close> built by \<open>simulation\<close>: the seven mode counts, then the 21 entries that
  \<open>ode_system\<close> unpacks from \<open>args[7:]\<close>, named as it names them.
\<close>

record ode_args =
  args_Nx :: nat
  args_Ny :: nat
  args_Nz :: nat
  args_Nn :: nat
  args_Nm :: nat
  args_Np :: nat
  args_Ns :: nat
  args_qs :: ndarray
  args_nu :: ndarray
  args_D :: ndarray
  args_Omega_cs :: ndarray
  args_alpha_s :: ndarray
  args_u_s :: ndarray
  args_Lx :: ndarray
  args_Ly :: ndarray
  args_Lz :: ndarray
  args_kx_grid :: ndarray
  args_ky_grid :: ndarray
  args_kz_grid :: ndarray
  args_k2_grid :: ndarray
  args_nabla :: ndarray
  args_col :: ndarray
  args_sqrt_n_plus :: ndarray
  args_sqrt_n_minus :: ndarray
  args_sqrt_m_plus :: ndarray
  args_sqrt_m_minus :: ndarray
  args_sqrt_p_plus :: ndarray
  args_sqrt_p_minus :: ndarray

text \<open>
  The functions \<open>ode_system\<close> calls that are defined outside \<open>_simulation.py\<close>: the module
  \<open>_model\<close> (\<open>plasma_current\<close>, \<open>Hermite_Fourier_system\<close>, \<open>_twothirds_mask\<close>) and the
  transforms \<open>jnp.fft.ifftshift\<close> and \<open>jnp.fft.ifftn\<close> over the last three axes.  They are
  parameters of the model; \<open>'m\<close> is the type of the mask.
\<close>

record 'm model =
  ifftshift :: "ndarray \<Rightarrow> error + ndarray"
  ifftn :: "ndarray \<Rightarrow> error + ndarray"
  twothirds_mask :: "nat \<Rightarrow> nat \<Rightarrow> nat \<Rightarrow> 'm"
  Hermite_Fourier_system ::
    "ndarray \<times> ndarray \<times> ndarray \<Rightarrow> ndarray list \<Rightarrow> nat \<times> nat \<times> nat \<times> nat \<Rightarrow> 'm \<Rightarrow> error + ndarray"
  plasma_current ::
    "ndarray \<Rightarrow> ndarray \<Rightarrow> ndarray \<Rightarrow> ndarray \<Rightarrow> nat \<times> nat \<times> nat \<times> nat \<Rightarrow> error + ndarray"

text \<open>The positional arguments of the call of \<open>Hermite_Fourier_system\<close> between \<open>F\<close> and
  \<open>Nn\<close>, in the order of the call.\<close>

definition hf_params :: "ode_args \<Rightarrow> ndarray list" where
  "hf_params args =
     [args_kx_grid args, args_ky_grid args, args_kz_grid args, args_k2_grid args, args_col args,
      args_sqrt_n_plus args, args_sqrt_n_minus args, args_sqrt_m_plus args, args_sqrt_m_minus args,
      args_sqrt_p_plus args, args_sqrt_p_minus args,
      args_Lx args, args_Ly args, args_Lz args, args_nu args, args_D args,
      args_alpha_s args, args_u_s args, args_qs args, args_Omega_cs args]"

text \<open>Lines 76 to 78: the flat state is cut at \<open>total_Ck_size\<close> and both parts reshaped.\<close>

definition unpack_state ::
  "nat \<Rightarrow> nat \<Rightarrow> nat \<Rightarrow> nat \<Rightarrow> nat \<Rightarrow> nat \<Rightarrow> nat \<Rightarrow> complex list \<Rightarrow> error + (ndarray \<times> ndarray)" where
  "unpack_state Nx Ny Nz Nn Nm Np Ns Ck_Fk =
     (let total_Ck_size = Nn * Nm * Np * Ns * Nx * Ny * Nz
      in ebind (reshape (take total_Ck_size Ck_Fk) [Nn * Nm * Np * Ns, Ny, Nx, Nz]) (\<lambda>Ck.
         ebind (reshape (drop total_Ck_size Ck_Fk) [6, Ny, Nx, Nz]) (\<lambda>Fk.
         Inr (Ck, Fk))))"

text \<open>Lines 81 and 82: \<open>ifftn(ifftshift(a))\<close>.\<close>

definition to_real_space :: "'m model \<Rightarrow> ndarray \<Rightarrow> error + ndarray" where
  "to_real_space M a = ebind (ifftshift M a) (ifftn M)"

text \<open>Line 91: \<open>-1j * cross_product(nabla, Fk[:3])\<close>.\<close>

definition dBk_dt :: "ndarray \<Rightarrow> ndarray \<Rightarrow> error + ndarray" where
  "dBk_dt nabla Fk =
     ebind (slice_to 3 Fk) (\<lambda>E.
     ebind (cross_product nabla E) (\<lambda>c.
     mul (scalar (- \<i>)) c))"

text \<open>Line 94: \<open>1j * cross_product(nabla, Fk[3:]) - current / Omega_cs[0]\<close>.\<close>

definition dEk_dt :: "ndarray \<Rightarrow> ndarray \<Rightarrow> ndarray \<Rightarrow> ndarray \<Rightarrow> error + ndarray" where
  "dEk_dt nabla Fk current Omega_cs =
     ebind (slice_from 3 Fk) (\<lambda>B.
     ebind (cross_product nabla B) (\<lambda>c.
     ebind (mul (scalar \<i>) c) (\<lambda>l.
     ebind (index0 Omega_cs) (\<lambda>w.
     ebind (divide_arr current w) (\<lambda>r.
     sub l r)))))"

text \<open>Lines 44 to 98.  The time \<open>t\<close> is of any type: the body does not use it.\<close>

definition ode_system ::
  "'m model \<Rightarrow> nat \<Rightarrow> nat \<Rightarrow> nat \<Rightarrow> nat \<Rightarrow> nat \<Rightarrow> nat \<Rightarrow> nat \<Rightarrow> 't \<Rightarrow> complex list \<Rightarrow> ode_args
     \<Rightarrow> error + complex list" where
  "ode_system M Nx Ny Nz Nn Nm Np Ns t Ck_Fk args =
     ebind (unpack_state Nx Ny Nz Nn Nm Np Ns Ck_Fk) (\<lambda>(Ck, Fk).
     ebind (to_real_space M Fk) (\<lambda>F.
     ebind (to_real_space M Ck) (\<lambda>C.
     let mask23 = twothirds_mask M Ny Nx Nz in
     ebind (Hermite_Fourier_system M (Ck, C, F) (hf_params args) (Nn, Nm, Np, Ns) mask23)
       (\<lambda>dCk_s_dt.
     ebind (dBk_dt (args_nabla args) Fk) (\<lambda>dBk.
     ebind (plasma_current M (args_qs args) (args_alpha_s args) (args_u_s args) Ck
              (Nn, Nm, Np, Ns)) (\<lambda>current.
     ebind (dEk_dt (args_nabla args) Fk current (args_Omega_cs args)) (\<lambda>dEk.
     ebind (concatenate0 dEk dBk) (\<lambda>dFk_dt.
     Inr (data dCk_s_dt @ data dFk_dt)))))))))"

section \<open>The Maxwell contract\<close>

text \<open>
  \<open>component a i g\<close> is the entry of the \<open>i\<close>-th leading component of \<open>a\<close> at position
  \<open>g\<close> of the (flattened) remaining axes, and \<open>vec3 a i g\<close> the 3-vector made of the
  components \<open>i\<close>, \<open>i + 1\<close>, \<open>i + 2\<close> at that position.
\<close>

definition component :: "ndarray \<Rightarrow> nat \<Rightarrow> nat \<Rightarrow> complex" where
  "component a i g = data a ! (i * prod_list (tl (shape a)) + g)"

definition vec3 :: "ndarray \<Rightarrow> nat \<Rightarrow> nat \<Rightarrow> complex \<times> complex \<times> complex" where
  "vec3 a i g = (component a i g, component a (i + 1) g, component a (i + 2) g)"

text \<open>
  The contract in the words of the specification: the standard cross product of 3-vectors,
  \<open>dB/dt = -i (nabla \<times> E)\<close> and \<open>dE/dt = i (nabla \<times> B) - J / Omega_ce\<close>.
\<close>

fun spec_cross ::
  "complex \<times> complex \<times> complex \<Rightarrow> complex \<times> complex \<times> complex \<Rightarrow> complex \<times> complex \<times> complex" where
  "spec_cross (ax, ay, az) (bx, by, bz) = (ay * bz - az * by, az * bx - ax * bz, ax * by - ay * bx)"

fun scale3 :: "complex \<Rightarrow> complex \<times> complex \<times> complex \<Rightarrow> complex \<times> complex \<times> complex" where
  "scale3 c (x, y, z) = (c * x, c * y, c * z)"

fun minus3 ::
  "complex \<times> complex \<times> complex \<Rightarrow> complex \<times> complex \<times> complex \<Rightarrow> complex \<times> complex \<times> complex" where
  "minus3 (x, y, z) (u, v, w) = (x - u, y - v, z - w)"

fun div3 :: "complex \<times> complex \<times> complex \<Rightarrow> complex \<Rightarrow> complex \<times> complex \<times> complex" where
  "div3 (x, y, z) c = (x / c, y / c, z / c)"

definition spec_dB_dt where
  "spec_dB_dt n E = scale3 (- \<i>) (spec_cross n E)"

definition spec_dE_dt where
  "spec_dE_dt n B J Omega_ce = minus3 (scale3 \<i> (spec_cross n B)) (div3 J Omega_ce)"

section \<open>Valid states and arguments\<close>

text \<open>The two arrays that lines 77 and 78 produce from a flat state.\<close>

definition Ck_block :: "nat \<Rightarrow> nat \<Rightarrow> nat \<Rightarrow> nat \<Rightarrow> nat \<Rightarrow> nat \<Rightarrow> nat \<Rightarrow> complex list \<Rightarrow> ndarray" where
  "Ck_block Nx Ny Nz Nn Nm Np Ns y =
     NDArray [Nn * Nm * Np * Ns, Ny, Nx, Nz] (take (Nn * Nm * Np * Ns * Nx * Ny * Nz) y)"

definition Fk_block :: "nat \<Rightarrow> nat \<Rightarrow> nat \<Rightarrow> nat \<Rightarrow> nat \<Rightarrow> nat \<Rightarrow> nat \<Rightarrow> complex list \<Rightarrow> ndarray" where
  "Fk_block Nx Ny Nz Nn Nm Np Ns y =
     NDArray [6, Ny, Nx, Nz] (drop (Nn * Nm * Np * Ns * Nx * Ny * Nz) y)"

text \<open>
  The entries of \<open>args\<close> that the field equations read: \<open>nabla\<close> has one 3-vector per grid
  point and \<open>Omega_cs\<close> one entry per species.
\<close>

definition valid_args :: "nat \<Rightarrow> nat \<Rightarrow> nat \<Rightarrow> nat \<Rightarrow> ode_args \<Rightarrow> bool" where
  "valid_args Nx Ny Nz Ns args \<longleftrightarrow>
     shape (args_nabla args) = [3, Ny, Nx, Nz] \<and> well_shaped (args_nabla args) \<and>
     shape (args_Omega_cs args) = [Ns] \<and> well_shaped (args_Omega_cs args) \<and> 0 < Ns"

text \<open>
  \<open>collaborators_return M \<dots> y args d J\<close>: on the state \<open>y\<close> the transforms return,
  \<open>Hermite_Fourier_system\<close> returns \<open>d\<close> and \<open>plasma_current\<close> returns \<open>J\<close>.
\<close>

definition collaborators_return ::
  "'m model \<Rightarrow> nat \<Rightarrow> nat \<Rightarrow> nat \<Rightarrow> nat \<Rightarrow> nat \<Rightarrow> nat \<Rightarrow> nat \<Rightarrow> complex list \<Rightarrow> ode_args
     \<Rightarrow> ndarray \<Rightarrow> ndarray \<Rightarrow> bool" where
  "collaborators_return M Nx Ny Nz Nn Nm Np Ns y args d J \<longleftrightarrow>
     (let Ck = Ck_block Nx Ny Nz Nn Nm Np Ns y; Fk = Fk_block Nx Ny Nz Nn Nm Np Ns y
      in case (to_real_space M Fk, to_real_space M Ck) of
           (Inr F, Inr C) \<Rightarrow>
             Hermite_Fourier_system M (Ck, C, F) (hf_params args) (Nn, Nm, Np, Ns)
               (twothirds_mask M Ny Nx Nz) = Inr d \<and>
             plasma_current M (args_qs args) (args_alpha_s args) (args_u_s args) Ck
               (Nn, Nm, Np, Ns) = Inr J
         | _ \<Rightarrow> False)"

section \<open>A concrete instance\<close>

text \<open>
  A small instance on which the definitions can be evaluated: two grid points along x,
  three Hermite modes, one species; the transforms are the identity,
  \<open>Hermite_Fourier_system\<close> returns \<open>Ck\<close> and \<open>plasma_current\<close> its first three components.
\<close>

definition example_model :: "unit model" where
  "example_model =
     \<lparr>ifftshift = Inr, ifftn = Inr, twothirds_mask = (\<lambda>Ny Nx Nz. ()),
      Hermite_Fourier_system = (\<lambda>(Ck, C, F) ps ns mask23. Inr Ck),
      plasma_current = (\<lambda>qs alpha_s u_s Ck ns. slice_to 3 Ck)\<rparr>"

definition example_args :: ode_args where
  "example_args =
     \<lparr>args_Nx = 2, args_Ny = 1, args_Nz = 1, args_Nn = 3, args_Nm = 1, args_Np = 1, args_Ns = 1,
      args_qs = NDArray [1] [1], args_nu = scalar 0, args_D = scalar 0,
      args_Omega_cs = NDArray [1] [2], args_alpha_s = NDArray [3] [1, 1, 1],
      args_u_s = NDArray [3] [0, 0, 0], args_Lx = scalar 1, args_Ly = scalar 1, args_Lz = scalar 1,
      args_kx_grid = NDArray [1, 2, 1] [0, 1], args_ky_grid = NDArray [1, 2, 1] [0, 0],
      args_kz_grid = NDArray [1, 2, 1] [0, 0], args_k2_grid = NDArray [1, 2, 1] [0, 1],
      args_nabla = NDArray [3, 1, 2, 1] [0, 1, 2, 3, 0, 0], args_col = NDArray [3] [0, 0, 0],
      args_sqrt_n_plus = NDArray [3] [1, 1, 1], args_sqrt_n_minus = NDArray [3] [0, 1, 1],
      args_sqrt_m_plus = NDArray [1] [1], args_sqrt_m_minus = NDArray [1] [0],
      args_sqrt_p_plus = NDArray [1] [1], args_sqrt_p_minus = NDArray [1] [0]\<rparr>"

definition example_state :: "complex list" where
  "example_state = [1, 2, 3, 4, 5, 6, 1, 0, 0, 1, 2, \<i>, 0, 1, 1, 0, 3, 1]"

definition example_state' :: "complex list" where
  "example_state' = [9, 8, 7, 6, 5, 4, 1, 0, 0, 1, 2, \<i>, 7, 7, 7, 7, 7, 7]"

section \<open>simulation\<close>

subsection \<open>Dictionaries and the array operations of the driver\<close>

text \<open>
  The parameter dictionary and the returned dictionary map keys to arrays; a scalar is an
  array of shape \<open>()\<close>.  \<open>lookup\<close> is \<open>d[k]\<close>, which raises \<open>KeyError\<close> on a missing key.
\<close>

type_synonym pydict = "string \<rightharpoonup> ndarray"

definition lookup :: "pydict \<Rightarrow> string \<Rightarrow> error + ndarray" where
  "lookup d k = (case d k of None \<Rightarrow> Inl (KeyError k) | Some v \<Rightarrow> Inr v)"

text \<open>
  \<open>jnp.linspace(0, stop, num)\<close>: \<open>num\<close> samples from 0 to \<open>stop\<close>, both ends included; a
  single sample is the start point.
\<close>

definition linspace0 :: "ndarray \<Rightarrow> nat \<Rightarrow> ndarray" where
  "linspace0 stop num =
     NDArray (num # shape stop)
       (concat (map (\<lambda>i. map (\<lambda>s. if num \<le> 1 then 0 else of_nat i * s / of_nat (num - 1))
                               (data stop)) [0..<num]))"

text \<open>\<open>len(a)\<close>: the extent of the leading axis.\<close>

definition len :: "ndarray \<Rightarrow> error + nat" where
  "len a = (case shape a of [] \<Rightarrow> Inl ShapeError | d # r \<Rightarrow> Inr d)"

text \<open>
  \<open>ys[:, :(-k)]\<close> and \<open>ys[:, (-k):]\<close> for \<open>k \<ge> 0\<close>.  For \<open>k = 0\<close> the bound \<open>-0\<close> is 0, so
  the first slice is empty and the second is everything.
\<close>

definition cols_upto_neg :: "nat \<Rightarrow> ndarray \<Rightarrow> error + ndarray" where
  "cols_upto_neg k ys =
     (case shape ys of
        T # L # rest \<Rightarrow>
          (let R = prod_list rest; keep = (if k = 0 then 0 else L - k)
           in Inr (NDArray (T # keep # rest)
                    (concat (map (take (keep * R)) (rows T (L * R) (data ys))))))
      | _ \<Rightarrow> Inl IndexError)"

definition cols_from_neg :: "nat \<Rightarrow> ndarray \<Rightarrow> error + ndarray" where
  "cols_from_neg k ys =
     (case shape ys of
        T # L # rest \<Rightarrow>
          (let R = prod_list rest; start = (if k = 0 then 0 else L - k)
           in Inr (NDArray (T # (L - start) # rest)
                    (concat (map (drop (start * R)) (rows T (L * R) (data ys))))))
      | _ \<Rightarrow> Inl IndexError)"

text \<open>
  \<open>a.at[:, i, j, k, l].set(0)\<close> on a five-axis array.  An index beyond its axis is
  dropped by the scatter (the array is returned unchanged); indexing an axis of extent 0
  raises.
\<close>

definition at_set0 :: "nat \<Rightarrow> nat \<Rightarrow> nat \<Rightarrow> nat \<Rightarrow> ndarray \<Rightarrow> error + ndarray" where
  "at_set0 i j k l a =
     (case shape a of
        [T, A, B, C, D] \<Rightarrow>
          if A = 0 \<or> B = 0 \<or> C = 0 \<or> D = 0 then Inl IndexError
          else if i < A \<and> j < B \<and> k < C \<and> l < D
          then Inr (NDArray (shape a)
                 (map (\<lambda>(n, x). if n mod (A * B * C * D) = ((i * B + j) * C + k) * D + l
                                 then 0 else x)
                      (enumerate 0 (data a))))
          else Inr a
      | _ \<Rightarrow> Inl IndexError)"

subsection \<open>The integrator and the other collaborators\<close>

text \<open>
  The arguments of the call of \<open>diffeqsolve\<close> (lines 149 to 155): the vector field wrapped
  in \<open>ODETerm\<close>, the solver, the two tolerances of the \<open>PIDController\<close>, the time span, the
  first step, the initial state, \<open>args\<close>, the sample times of \<open>SaveAt\<close>, the step bound
  and the progress meter.
\<close>

datatype progress_meter = TqdmProgressMeter | NoProgressMeter

record 's solve_request =
  req_term :: "real \<Rightarrow> complex list \<Rightarrow> ode_args \<Rightarrow> error + complex list"
  req_solver :: 's
  req_rtol :: ndarray
  req_atol :: ndarray
  req_t0 :: real
  req_t1 :: ndarray
  req_dt0 :: real
  req_y0 :: "complex list"
  req_args :: ode_args
  req_saveat_ts :: ndarray
  req_max_steps :: nat
  req_progress_meter :: progress_meter

text \<open>What \<open>simulation\<close> reads of the returned solution.\<close>

record solution =
  sol_ts :: ndarray
  sol_ys :: ndarray

text \<open>
  The functions \<open>simulation\<close> calls that are defined outside \<open>_simulation.py\<close>:
  \<open>initialize_simulation_parameters\<close>, the integrator \<open>diffeqsolve\<close>, and \<open>diagnostics\<close>,
  which is called for its effect on the dictionary it is given and so returns the
  dictionary as it leaves it.  Each may raise.
\<close>

record 's driver =
  initialize_simulation_parameters ::
    "pydict \<Rightarrow> nat \<times> nat \<times> nat \<times> nat \<times> nat \<times> nat \<times> nat \<Rightarrow> nat \<Rightarrow> real \<Rightarrow> error + pydict"
  diffeqsolve :: "'s solve_request \<Rightarrow> error + solution"
  diagnostics :: "pydict \<Rightarrow> error + pydict"

subsection \<open>The driver\<close>

text \<open>Lines 140 to 145: the entries of \<open>args\<close>, looked up in the order of the source.\<close>

definition build_args ::
  "pydict \<Rightarrow> nat \<Rightarrow> nat \<Rightarrow> nat \<Rightarrow> nat \<Rightarrow> nat \<Rightarrow> nat \<Rightarrow> nat \<Rightarrow> error + ode_args" where
  "build_args parameters Nx Ny Nz Nn Nm Np Ns =
     ebind (lookup parameters ''qs'') (\<lambda>qs.
     ebind (lookup parameters ''nu'') (\<lambda>nu.
     ebind (lookup parameters ''D'') (\<lambda>D.
     ebind (lookup parameters ''Omega_cs'') (\<lambda>Omega_cs.
     ebind (lookup parameters ''alpha_s'') (\<lambda>alpha_s.
     ebind (lookup parameters ''u_s'') (\<lambda>u_s.
     ebind (lookup parameters ''Lx'') (\<lambda>Lx.
     ebind (lookup parameters ''Ly'') (\<lambda>Ly.
     ebind (lookup parameters ''Lz'') (\<lambda>Lz.
     ebind (lookup parameters ''kx_grid'') (\<lambda>kx_grid.
     ebind (lookup parameters ''ky_grid'') (\<lambda>ky_grid.
     ebind (lookup parameters ''kz_grid'') (\<lambda>kz_grid.
     ebind (lookup parameters ''k2_grid'') (\<lambda>k2_grid.
     ebind (lookup parameters ''nabla'') (\<lambda>nabla.
     ebind (lookup parameters ''collision_matrix'') (\<lambda>col.
     ebind (lookup parameters ''sqrt_n_plus'') (\<lambda>sqrt_n_plus.
     ebind (lookup parameters ''sqrt_n_minus'') (\<lambda>sqrt_n_minus.
     ebind (lookup parameters ''sqrt_m_plus'') (\<lambda>sqrt_m_plus.
     ebind (lookup parameters ''sqrt_m_minus'') (\<lambda>sqrt_m_minus.
     ebind (lookup parameters ''sqrt_p_plus'') (\<lambda>sqrt_p_plus.
     ebind (lookup parameters ''sqrt_p_minus'') (\<lambda>sqrt_p_minus.
     Inr \<lparr>args_Nx = Nx, args_Ny = Ny, args_Nz = Nz, args_Nn = Nn, args_Nm = Nm, args_Np = Np,
          args_Ns = Ns, args_qs = qs, args_nu = nu, args_D = D, args_Omega_cs = Omega_cs,
          args_alpha_s = alpha_s, args_u_s = u_s, args_Lx = Lx, args_Ly = Ly, args_Lz = Lz,
          args_kx_grid = kx_grid, args_ky_grid = ky_grid, args_kz_grid = kz_grid,
          args_k2_grid = k2_grid, args_nabla = nabla, args_col = col,
          args_sqrt_n_plus = sqrt_n_plus, args_sqrt_n_minus = sqrt_n_minus,
          args_sqrt_m_plus = sqrt_m_plus, args_sqrt_m_minus = sqrt_m_minus,
          args_sqrt_p_plus = sqrt_p_plus, args_sqrt_p_minus = sqrt_p_minus\<rparr>
     )))))))))))))))))))))"

text \<open>Lines 160 to 165: \<open>Ck\<close>, \<open>Fk\<close> and the perturbation \<open>dCk\<close> from the solution.\<close>

definition trajectory ::
  "nat \<Rightarrow> nat \<Rightarrow> nat \<Rightarrow> nat \<Rightarrow> nat \<Rightarrow> nat \<Rightarrow> nat \<Rightarrow> solution \<Rightarrow> error + (ndarray \<times> ndarray \<times> ndarray)" where
  "trajectory Nx Ny Nz Nn Nm Np Ns sol =
     ebind (cols_upto_neg (6 * Nx * Ny * Nz) (sol_ys sol)) (\<lambda>c.
     ebind (len (sol_ts sol)) (\<lambda>n.
     ebind (reshape (data c) [n, Ns * Nn * Nm * Np, Ny, Nx, Nz]) (\<lambda>Ck.
     ebind (cols_from_neg (6 * Nx * Ny * Nz) (sol_ys sol)) (\<lambda>f.
     ebind (len (sol_ts sol)) (\<lambda>n'.
     ebind (reshape (data f) [n', 6, Ny, Nx, Nz]) (\<lambda>Fk.
     ebind (at_set0 0 0 1 0 Ck) (\<lambda>dCk.
     ebind (at_set0 (Nn * Nm * Np) 0 1 0 dCk) (\<lambda>dCk.
     Inr (Ck, Fk, dCk)))))))))"

text \<open>
  Lines 101 to 171.  The returned dictionary is \<open>output\<close> as \<open>diagnostics\<close> leaves it.
\<close>

definition simulation ::
  "'m model \<Rightarrow> 's driver \<Rightarrow> pydict \<Rightarrow> nat \<Rightarrow> nat \<Rightarrow> nat \<Rightarrow> nat \<Rightarrow> nat \<Rightarrow> nat \<Rightarrow> nat \<Rightarrow> nat \<Rightarrow> real \<Rightarrow> 's
     \<Rightarrow> error + pydict" where
  "simulation M Dr input_parameters Nx Ny Nz Nn Nm Np Ns timesteps dt solver =
     ebind (initialize_simulation_parameters Dr input_parameters (Nx, Ny, Nz, Nn, Nm, Np, Ns)
              timesteps dt) (\<lambda>parameters.
     ebind (lookup parameters ''Ck_0'') (\<lambda>Ck_0.
     ebind (lookup parameters ''Fk_0'') (\<lambda>Fk_0.
     let initial_conditions = data Ck_0 @ data Fk_0 in
     ebind (lookup parameters ''t_max'') (\<lambda>t_max.
     let time = linspace0 t_max timesteps in
     ebind (build_args parameters Nx Ny Nz Nn Nm Np Ns) (\<lambda>args.
     let ode_system_partial = ode_system M Nx Ny Nz Nn Nm Np Ns in
     ebind (lookup parameters ''ode_tolerance'') (\<lambda>rtol.
     ebind (lookup parameters ''ode_tolerance'') (\<lambda>atol.
     ebind (lookup parameters ''t_max'') (\<lambda>t1.
     ebind (diffeqsolve Dr
              \<lparr>req_term = ode_system_partial, req_solver = solver,
               req_rtol = rtol, req_atol = atol, req_t0 = 0, req_t1 = t1, req_dt0 = dt,
               req_y0 = initial_conditions, req_args = args, req_saveat_ts = time,
               req_max_steps = 1000000, req_progress_meter = TqdmProgressMeter\<rparr>) (\<lambda>sol.
     ebind (trajectory Nx Ny Nz Nn Nm Np Ns sol) (\<lambda>(Ck, Fk, dCk).
     let temporary_output = [''Ck'' \<mapsto> Ck, ''Fk'' \<mapsto> Fk, ''time'' \<mapsto> time, ''dCk'' \<mapsto> dCk];
         output = temporary_output ++ parameters
     in diagnostics Dr output))))))))))"

subsection \<open>Notions used to state the claims\<close>

text \<open>\<open>entry a idx\<close> is \<open>a[idx]\<close> for a multi-index in range; \<open>ravel\<close> is its row-major
  position.\<close>

definition ravel :: "nat list \<Rightarrow> nat list \<Rightarrow> nat" where
  "ravel s idx = foldl (\<lambda>acc (d, i). acc * d + i) 0 (zip s idx)"

definition entry :: "ndarray \<Rightarrow> nat list \<Rightarrow> complex" where
  "entry a idx = data a ! ravel (shape a) idx"

text \<open>\<open>output_entry k r\<close> is what the dictionary returned by a run \<open>r\<close> holds under
  \<open>k\<close>.\<close>

definition output_entry :: "string \<Rightarrow> error + pydict \<Rightarrow> error + ndarray" where
  "output_entry k r = ebind r (\<lambda>out. lookup out k)"

text \<open>
  Two properties of collaborators.  \<open>keeps f K\<close>: when \<open>f\<close> returns, the entries under the
  keys \<open>K\<close> are as they were.  \<open>samples_at_saveat solve\<close>: the integrator returns as many
  sample times as it was given in \<open>SaveAt\<close>.
\<close>

definition keeps :: "(pydict \<Rightarrow> error + pydict) \<Rightarrow> string set \<Rightarrow> bool" where
  "keeps f K \<longleftrightarrow> (\<forall>d d'. f d = Inr d' \<longrightarrow> (\<forall>k\<in>K. d' k = d k))"

definition samples_at_saveat :: "('s solve_request \<Rightarrow> error + solution) \<Rightarrow> bool" where
  "samples_at_saveat solve \<longleftrightarrow>
     (\<forall>req sol. solve req = Inr sol \<longrightarrow> shape (sol_ts sol) = shape (req_saveat_ts req))"

text \<open>
  The request built by \<open>simulation\<close> from the values it looked up, and what it does with the
  solution; \<open>simulation\<close> is the composition of the two around the call of the integrator
  (lemma \<open>simulation_unfold\<close>).
\<close>

definition solver_request where
  "solver_request M Nx Ny Nz Nn Nm Np Ns timesteps dt solver Ck_0 Fk_0 t_max tol args =
     \<lparr>req_term = ode_system M Nx Ny Nz Nn Nm Np Ns, req_solver = solver,
      req_rtol = tol, req_atol = tol, req_t0 = 0, req_t1 = t_max, req_dt0 = dt,
      req_y0 = data Ck_0 @ data Fk_0, req_args = args,
      req_saveat_ts = linspace0 t_max timesteps,
      req_max_steps = 1000000, req_progress_meter = TqdmProgressMeter\<rparr>"

definition assemble where
  "assemble Dr p t_max timesteps Nx Ny Nz Nn Nm Np Ns sol =
     ebind (trajectory Nx Ny Nz Nn Nm Np Ns sol) (\<lambda>(Ck, Fk, dCk).
       diagnostics Dr ([''Ck'' \<mapsto> Ck, ''Fk'' \<mapsto> Fk, ''time'' \<mapsto> linspace0 t_max timesteps,
                        ''dCk'' \<mapsto> dCk] ++ p))"

text \<open>
  The perturbation in the words of the specification: for each of the \<open>Ns\<close> species the
  entry of the Hermite triplet \<open>n = m = p = 0\<close> at the centred zero mode is set to zero.
  The centre of an axis of \<open>n\<close> modes is where \<open>_plot.py\<close> reads the zero mode,
  \<open>int((n - 1) / 2)\<close>; for an odd \<open>n\<close> this is the position that \<open>ifftshift\<close> moves to the
  front.
\<close>

definition zero_mode :: "nat \<Rightarrow> nat" where
  "zero_mode n = (n - 1) div 2"

definition spec_perturbation :: "nat \<Rightarrow> nat \<Rightarrow> nat \<Rightarrow> nat \<Rightarrow> ndarray \<Rightarrow> ndarray" where
  "spec_perturbation Nn Nm Np Ns Ck =
     (case shape Ck of
        [T, A, B, C, D] \<Rightarrow>
          NDArray (shape Ck)
            (map (\<lambda>(n, x).
                    if n mod (A * B * C * D) \<in>
                       set (map (\<lambda>s. ((s * (Nn * Nm * Np) * B + zero_mode B) * C + zero_mode C) * D
                                       + zero_mode D) [0..<Ns])
                    then 0 else x)
                 (enumerate 0 (data Ck)))
      | _ \<Rightarrow> Ck)"

subsection \<open>A concrete run\<close>

text \<open>
  Five modes along x, one Hermite mode, two species.  The initializer returns a fixed
  dictionary (updated with the overrides), the integrator stub returns the initial state at
  every sample time, and \<open>diagnostics\<close> adds one key.  \<open>failing_driver\<close> is the same with an
  integrator that fails.
\<close>

definition example_parameters :: pydict where
  "example_parameters = map_of
     [(''Ck_0'', NDArray [2, 1, 5, 1] [1, 2, 3, 4, 5, 6, 7, 8, 9, 10]),
      (''Fk_0'', NDArray [6, 1, 5, 1] [0, 0, 0, 0, 0, 0, 0, 0, 0, 0, 0, 0, 0, 0, 0, 0, 0, 0, 0, 0, 0, 0, 0, 0, 0, 0, 0, 0, 0, 0]),
      (''t_max'', scalar 4), (''ode_tolerance'', scalar (1 / 1000)),
      (''qs'', NDArray [2] [- 1, 1]), (''nu'', scalar 0), (''D'', scalar 0),
      (''Omega_cs'', NDArray [2] [- 1, 1]), (''alpha_s'', NDArray [6] [1, 1, 1, 1, 1, 1]),
      (''u_s'', NDArray [6] [0, 0, 0, 0, 0, 0]), (''Lx'', scalar 1), (''Ly'', scalar 1), (''Lz'', scalar 1),
      (''kx_grid'', NDArray [1, 5, 1] [- 2, - 1, 0, 1, 2]), (''ky_grid'', NDArray [1, 5, 1] [0, 0, 0, 0, 0]),
      (''kz_grid'', NDArray [1, 5, 1] [0, 0, 0, 0, 0]), (''k2_grid'', NDArray [1, 5, 1] [4, 1, 0, 1, 4]),
      (''nabla'', NDArray [3, 1, 5, 1] [- 2, - 1, 0, 1, 2, 0, 0, 0, 0, 0, 0, 0, 0, 0, 0]),
      (''collision_matrix'', NDArray [1] [0]),
      (''sqrt_n_plus'', NDArray [1] [1]), (''sqrt_n_minus'', NDArray [1] [0]),
      (''sqrt_m_plus'', NDArray [1] [1]), (''sqrt_m_minus'', NDArray [1] [0]),
      (''sqrt_p_plus'', NDArray [1] [1]), (''sqrt_p_minus'', NDArray [1] [0])]"

definition example_driver :: "unit driver" where
  "example_driver =
     \<lparr>initialize_simulation_parameters =
        (\<lambda>input_parameters counts timesteps dt. Inr (example_parameters ++ input_parameters)),
      diffeqsolve =
        (\<lambda>req. ebind (len (req_saveat_ts req)) (\<lambda>n.
           Inr \<lparr>sol_ts = req_saveat_ts req,
                sol_ys = NDArray [n, length (req_y0 req)] (concat (map (\<lambda>i. req_y0 req) [0..<n]))\<rparr>)),
      diagnostics = (\<lambda>output. Inr (output(''EM_energy'' \<mapsto> scalar 0)))\<rparr>"

definition failing_driver :: "unit driver" where
  "failing_driver = example_driver\<lparr>diffeqsolve := (\<lambda>req. Inl (SolverError (req_max_steps req)))\<rparr>"

section \<open>Properties of the array operations\<close>

subsection \<open>Broadcasting is symmetric\<close>

lemma broadcast_rev_sym: "broadcast_rev xs ys = broadcast_rev ys xs"
proof (induction xs ys rule: broadcast_rev.induct)
  case (1 ys)
  then show ?case by (cases ys) simp_all
next
  case (2 x xs)
  then show ?case by simp
next
  case (3 x xs y ys)
  then show ?case by auto
qed

lemma broadcast_shapes_sym: "broadcast_shapes s t = broadcast_shapes t s"
  by (simp add: broadcast_shapes_def broadcast_rev_sym)

lemma map2_swap: "map2 f xs ys = map2 (\<lambda>x y. f y x) ys xs"
  by (induction xs arbitrary: ys) (auto simp: zip_Cons1 split: list.splits)

lemma bop_swap: "bop f a b = bop (\<lambda>x y. f y x) b a"
  unfolding bop_def broadcast_shapes_sym [of "shape a" "shape b"]
  by (simp add: map2_swap [of f] split: option.splits)

lemma bop_error: "bop f a b = Inl e \<Longrightarrow> e = ShapeError"
  by (auto simp: bop_def split: option.splits)

lemma neg_bop: "map_sum id neg (bop f a b) = bop (\<lambda>x y. - f x y) a b"
  by (auto simp: bop_def neg_def split: option.splits)

lemma mul_comm: "mul a b = mul b a"
  unfolding mul_def by (subst bop_swap) (simp add: mult.commute)

lemma sub_anti: "sub p q = map_sum id neg (sub q p)"
  unfolding sub_def neg_bop by (subst bop_swap) simp

lemma mul_sub_error: "mul_sub a b c d = Inl e \<Longrightarrow> e = ShapeError"
  unfolding mul_sub_def mul_def sub_def
  by (cases "bop (*) a b"; cases "bop (*) c d") (auto dest: bop_error)

lemma mul_sub_anti: "mul_sub a b c d = map_sum id neg (mul_sub d c b a)"
proof (cases "mul a b")
  case (Inl e)
  then have e: "e = ShapeError" by (auto simp: mul_def dest: bop_error)
  show ?thesis
  proof (cases "mul c d")
    case (Inl e')
    then have "e' = ShapeError" by (auto simp: mul_def dest: bop_error)
    with Inl \<open>mul a b = Inl e\<close> e show ?thesis
      by (simp add: mul_sub_def mul_comm [of d c])
  next
    case (Inr q)
    with \<open>mul a b = Inl e\<close> show ?thesis
      by (simp add: mul_sub_def mul_comm [of d c] mul_comm [of b a])
  qed
next
  case (Inr p)
  show ?thesis
  proof (cases "mul c d")
    case (Inl e')
    with Inr show ?thesis
      by (simp add: mul_sub_def mul_comm [of d c])
  next
    case Inr': (Inr q)
    with Inr show ?thesis
      by (simp add: mul_sub_def mul_comm [of d c] mul_comm [of b a] sub_anti [of p q])
  qed
qed

lemma stack3_neg: "stack3 (neg x) (neg y) (neg z) = map_sum id neg (stack3 x y z)"
  by (simp add: stack3_def neg_def)

lemma unpack3_error: "unpack3 a = Inl e \<Longrightarrow> e = ShapeError"
  by (auto simp: unpack3_def split: list.splits if_splits)

lemma ebind_neg:
  "m = map_sum id neg m' \<Longrightarrow> (\<And>x. f (neg x) = map_sum id neg (g x)) \<Longrightarrow>
   ebind m f = map_sum id neg (ebind m' g)"
  by (cases m') auto

lemma cross_product_antisymmetric:
  "cross_product a b = map_sum id neg (cross_product b a)"
proof (cases "unpack3 a")
  case (Inl e)
  then have "e = ShapeError" by (rule unpack3_error)
  with Inl show ?thesis
    by (cases "unpack3 b") (auto simp: cross_product_def dest: unpack3_error)
next
  case (Inr ka)
  obtain kx ky kz where ka: "ka = (kx, ky, kz)" by (cases ka) auto
  show ?thesis
  proof (cases "unpack3 b")
    case (Inl e)
    with Inr show ?thesis by (simp add: cross_product_def ka)
  next
    case Inr': (Inr kb)
    obtain Fx Fy Fz where kb: "kb = (Fx, Fy, Fz)" by (cases kb) auto
    have "ebind (mul_sub ky Fz kz Fy) (\<lambda>c0.
          ebind (mul_sub kz Fx kx Fz) (\<lambda>c1.
          ebind (mul_sub kx Fy ky Fx) (\<lambda>c2. stack3 c0 c1 c2)))
        = map_sum id neg (ebind (mul_sub Fy kz Fz ky) (\<lambda>c0.
          ebind (mul_sub Fz kx Fx kz) (\<lambda>c1.
          ebind (mul_sub Fx ky Fy kx) (\<lambda>c2. stack3 c0 c1 c2))))"
      by (intro ebind_neg mul_sub_anti stack3_neg)
    with Inr Inr' show ?thesis by (simp add: cross_product_def ka kb)
  qed
qed

subsection \<open>Arrays of equal shape\<close>

lemma concat_rows: "concat (rows d n xs) = take (d * n) xs"
proof (induction d)
  case 0
  then show ?case by (simp add: rows_def)
next
  case (Suc d)
  have "concat (rows (Suc d) n xs) = concat (rows d n xs) @ take n (drop (d * n) xs)"
    by (simp add: rows_def)
  also have "\<dots> = take (d * n + n) xs"
    by (simp add: Suc take_add)
  finally show ?case by (simp add: add.commute)
qed

lemma length_row:
  assumes "i < d" and "length xs = d * n"
  shows "length (take n (drop (i * n) xs)) = n"
proof -
  have "Suc i * n \<le> d * n" using assms(1) by (intro mult_le_mono1) simp
  then have "n \<le> d * n - i * n" by simp
  with assms(2) show ?thesis by simp
qed

lemma broadcast_data_same:
  "length xs = prod_list s \<Longrightarrow> broadcast_data s s xs = xs"
proof (induction s arbitrary: xs)
  case Nil
  then show ?case by simp
next
  case (Cons d ds)
  have "map (broadcast_data ds ds) (rows d (prod_list ds) xs) = rows d (prod_list ds) xs"
  proof (rule map_idI)
    fix r assume "r \<in> set (rows d (prod_list ds) xs)"
    then obtain i where "i < d" and r: "r = take (prod_list ds) (drop (i * prod_list ds) xs)"
      by (auto simp: rows_def)
    with Cons.prems have "length r = prod_list ds"
      using length_row [of i d xs "prod_list ds"] by simp
    then show "broadcast_data ds ds r = r" by (rule Cons.IH)
  qed
  with Cons.prems show ?case by (simp add: concat_rows)
qed

lemma broadcast_rev_same: "broadcast_rev xs xs = Some xs"
  by (induction xs) simp_all

lemma broadcast_shapes_same: "broadcast_shapes s s = Some s"
  by (simp add: broadcast_shapes_def broadcast_rev_same)

lemma pad_shape_same: "pad_shape (length s) s = s"
  by (simp add: pad_shape_def)

lemma bop_same_shape:
  assumes "shape a = shape b" and "well_shaped a" and "well_shaped b"
  shows "bop f a b = Inr (NDArray (shape a) (map2 f (data a) (data b)))"
  using assms
  by (simp add: bop_def broadcast_shapes_same pad_shape_same broadcast_data_same well_shaped_def)

lemma shape_subarray: "shape (subarray a i) = tl (shape a)"
  by (simp add: subarray_def Let_def)

lemma well_shaped_subarray:
  assumes "well_shaped a" and "shape a = d # r" and "i < d"
  shows "well_shaped (subarray a i)"
  using assms length_row [of i d "data a" "prod_list r"]
  by (simp add: well_shaped_def subarray_def Let_def)

lemma mul_sub_self:
  assumes "shape x = r" "shape y = r" "well_shaped x" "well_shaped y"
  shows "mul_sub x y y x = Inr (zeros r)"
proof -
  have len: "length (data x) = prod_list r" "length (data y) = prod_list r"
    using assms by (simp_all add: well_shaped_def)
  have 1: "mul x y = Inr (NDArray r (map2 (*) (data x) (data y)))"
    using assms by (simp add: mul_def bop_same_shape)
  have 2: "mul y x = Inr (NDArray r (map2 (*) (data x) (data y)))"
    using 1 by (simp add: mul_comm)
  have "sub (NDArray r (map2 (*) (data x) (data y))) (NDArray r (map2 (*) (data x) (data y)))
        = Inr (NDArray r (map2 (-) (map2 (*) (data x) (data y)) (map2 (*) (data x) (data y))))"
    unfolding sub_def by (subst bop_same_shape) (simp_all add: well_shaped_def len)
  moreover have "map2 (-) zs zs = replicate (length zs) 0" for zs :: "complex list"
    by (induction zs) simp_all
  ultimately show ?thesis
    by (simp add: mul_sub_def 1 2 zeros_def len)
qed

lemma cross_product_self:
  assumes "well_shaped a" and "shape a = 3 # r"
  shows "cross_product a a = Inr (zeros (3 # r))"
proof -
  have ws: "well_shaped (subarray a 0)" "well_shaped (subarray a 1)" "well_shaped (subarray a 2)"
    using assms by (auto intro: well_shaped_subarray)
  have sh: "shape (subarray a i) = r" for i
    using assms by (simp add: shape_subarray)
  have u: "unpack3 a = Inr (subarray a 0, subarray a 1, subarray a 2)"
    using assms by (simp add: unpack3_def)
  have m0: "mul_sub (subarray a 1) (subarray a 2) (subarray a 2) (subarray a 1) = Inr (zeros r)"
    and m1: "mul_sub (subarray a 2) (subarray a 0) (subarray a 0) (subarray a 2) = Inr (zeros r)"
    and m2: "mul_sub (subarray a 0) (subarray a 1) (subarray a 1) (subarray a 0) = Inr (zeros r)"
    using ws by (simp_all only: mul_sub_self [OF sh sh])
  have rep: "replicate n (0::complex) @ replicate n 0 @ replicate n 0 = replicate (3 * n) 0" for n
    by (simp add: replicate_add [symmetric])
  show ?thesis
    unfolding cross_product_def u ebind.simps prod.case m0 m1 m2
    by (simp add: stack3_def zeros_def rep)
qed

section \<open>Claims about cross_product\<close>

text \<open>
  C6: for all arrays \<open>a\<close> and \<open>b\<close> (3-vectors, or arrays with three leading
  components whose trailing shapes broadcast), \<open>cross_product a b\<close> is the negation of
  \<open>cross_product b a\<close>: both raise, or both return and the entries are negated; and
  \<open>cross_product a a\<close> is the zero array of the shape of \<open>a\<close> whenever \<open>a\<close> has three
  leading components.
\<close>

theorem cross_product_anticommutes:
  "cross_product a b = map_sum id neg (cross_product b a) \<and>
   (well_shaped a \<and> shape a = 3 # r \<longrightarrow> cross_product a a = Inr (zeros (3 # r)))"
  using cross_product_antisymmetric [of a b] cross_product_self [of a r] by simp

lemmas eval_defs = cross_product_def unpack3_def subarray_def mul_sub_def mul_def sub_def bop_def
    broadcast_shapes_def pad_shape_def rows_def stack3_def zeros_def neg_def well_shaped_def

theorem cross_product_anticommutes_witness:
  "well_shaped (NDArray [3] [1, 2, 3]) \<and> shape (NDArray [3] [1, 2, 3]) = 3 # [] \<and>
   cross_product (NDArray [3] [1, 2, 3]) (NDArray [3] [4, 5, 6]) = Inr (NDArray [3] [-3, 6, -3]) \<and>
   map_sum id neg (cross_product (NDArray [3] [4, 5, 6]) (NDArray [3] [1, 2, 3]))
     = Inr (NDArray [3] [-3, 6, -3]) \<and>
   cross_product (NDArray [3] [1, 2, 3]) (NDArray [3] [1, 2, 3]) = Inr (zeros [3])"
  using cross_product_anticommutes [of "NDArray [3] [1, 2, 3]" "NDArray [3] [4, 5, 6]" "[]"]
  by (simp add: eval_defs)

section \<open>Properties of ode_system\<close>

subsection \<open>Scalars\<close>

lemma concat_replicate_replicate:
  "concat (replicate t (replicate n c)) = replicate (t * n) c"
  by (induction t) (simp_all add: replicate_add)

lemma rows_one: "rows (Suc 0) n xs = [take n xs]"
  by (simp add: rows_def)

lemma prod_list_replicate_one: "prod_list (replicate n (Suc 0)) = Suc 0"
  by (induction n) simp_all

lemma broadcast_data_scalar:
  "broadcast_data (replicate (length s) (Suc 0)) s [c] = replicate (prod_list s) c"
proof (induction s)
  case Nil
  then show ?case by simp
next
  case (Cons t ts)
  then show ?case
    by (auto simp: rows_one prod_list_replicate_one concat_replicate_replicate)
qed

lemma broadcast_shapes_scalar: "broadcast_shapes [] s = Some s"
  by (simp add: broadcast_shapes_def)

lemma map2_replicate_left:
  "length ys = n \<Longrightarrow> map2 f (replicate n c) ys = map (f c) ys"
  by (induction ys arbitrary: n) auto

lemma bop_scalar_left:
  assumes "well_shaped a"
  shows "bop f (NDArray [] [c]) a = Inr (NDArray (shape a) (map (f c) (data a)))"
  using assms
  by (simp add: bop_def broadcast_shapes_scalar pad_shape_def broadcast_data_scalar
      broadcast_data_same well_shaped_def map2_replicate_left)

lemma bop_scalar_right:
  assumes "well_shaped a"
  shows "bop f a (NDArray [] [c]) = Inr (NDArray (shape a) (map (\<lambda>x. f x c) (data a)))"
  by (subst bop_swap) (simp add: bop_scalar_left assms)

subsection \<open>Unpacking the state\<close>

lemma unpack_state_exact:
  assumes "length y = Nn * Nm * Np * Ns * Nx * Ny * Nz + 6 * Ny * Nx * Nz"
  shows "unpack_state Nx Ny Nz Nn Nm Np Ns y =
    Inr (NDArray [Nn * Nm * Np * Ns, Ny, Nx, Nz] (take (Nn * Nm * Np * Ns * Nx * Ny * Nz) y),
         NDArray [6, Ny, Nx, Nz] (drop (Nn * Nm * Np * Ns * Nx * Ny * Nz) y))"
  using assms by (simp add: unpack_state_def reshape_def Let_def mult.assoc mult.left_commute)

lemma unpack_state_length:
  assumes "unpack_state Nx Ny Nz Nn Nm Np Ns y = Inr (Ck, Fk)"
  shows "length y = Nn * Nm * Np * Ns * Nx * Ny * Nz + 6 * Ny * Nx * Nz"
proof -
  let ?T = "Nn * Nm * Np * Ns * Nx * Ny * Nz"
  from assms have 1: "length (take ?T y) = prod_list [Nn * Nm * Np * Ns, Ny, Nx, Nz]"
    and 2: "length (drop ?T y) = prod_list [6, Ny, Nx, Nz]"
    by (auto simp: unpack_state_def reshape_def Let_def split: if_splits)
  have "prod_list [Nn * Nm * Np * Ns, Ny, Nx, Nz] = ?T"
    by (simp add: mult.assoc mult.left_commute)
  have "prod_list [6, Ny, Nx, Nz] = 6 * Ny * Nx * Nz"
    by (simp add: mult.assoc)
  with 2 have 3: "length y - ?T = 6 * Ny * Nx * Nz" by simp
  from 1 \<open>prod_list [Nn * Nm * Np * Ns, Ny, Nx, Nz] = ?T\<close> have "min (length y) ?T = ?T"
    by (simp only: length_take)
  then have "?T \<le> length y" by (simp add: min_def split: if_splits)
  with 3 show ?thesis by simp
qed

lemma unpack_state_blocks:
  assumes "length y = Nn * Nm * Np * Ns * Nx * Ny * Nz + 6 * Ny * Nx * Nz"
  shows "unpack_state Nx Ny Nz Nn Nm Np Ns y =
    Inr (Ck_block Nx Ny Nz Nn Nm Np Ns y, Fk_block Nx Ny Nz Nn Nm Np Ns y)"
  using unpack_state_exact [OF assms] by (simp add: Ck_block_def Fk_block_def)

lemma well_shaped_Fk_block:
  assumes "length y = Nn * Nm * Np * Ns * Nx * Ny * Nz + 6 * Ny * Nx * Nz"
  shows "well_shaped (Fk_block Nx Ny Nz Nn Nm Np Ns y)"
  using assms by (simp add: Fk_block_def well_shaped_def mult.assoc)

subsection \<open>The cross product, entry by entry\<close>

lemma component_subarray:
  assumes "well_shaped a" and "shape a = d # r" and "i < d" and "g < prod_list r"
  shows "data (subarray a i) ! g = component a i g"
proof -
  have "Suc i * prod_list r \<le> d * prod_list r"
    using assms(3) by (intro mult_le_mono1) simp
  then have "i * prod_list r + g < length (data a)"
    using assms by (simp add: well_shaped_def)
  then show ?thesis
    using assms by (simp add: subarray_def Let_def component_def)
qed

lemma length_subarray:
  assumes "well_shaped a" and "shape a = d # r" and "i < d"
  shows "length (data (subarray a i)) = prod_list r"
  using well_shaped_subarray [OF assms] assms(2)
  by (simp add: well_shaped_def shape_subarray)

lemma mul_sub_same:
  assumes "shape a = r" "shape b = r" "shape c = r" "shape d = r"
    and "well_shaped a" "well_shaped b" "well_shaped c" "well_shaped d"
  shows "mul_sub a b c d =
    Inr (NDArray r (map2 (-) (map2 (*) (data a) (data b)) (map2 (*) (data c) (data d))))"
proof -
  have 1: "mul a b = Inr (NDArray r (map2 (*) (data a) (data b)))"
    using assms by (simp add: mul_def bop_same_shape)
  have 2: "mul c d = Inr (NDArray r (map2 (*) (data c) (data d)))"
    using assms by (simp add: mul_def bop_same_shape)
  have "sub (NDArray r (map2 (*) (data a) (data b))) (NDArray r (map2 (*) (data c) (data d)))
      = Inr (NDArray r (map2 (-) (map2 (*) (data a) (data b)) (map2 (*) (data c) (data d))))"
    unfolding sub_def using assms
    by (subst bop_same_shape) (simp_all add: well_shaped_def)
  then show ?thesis by (simp add: mul_sub_def 1 2)
qed

lemma nth_mul_sub:
  assumes "g < n" "length xs = n" "length ys = n" "length zs = n" "length ws = n"
  shows "map2 (-) (map2 (*) xs ys) (map2 (*) zs ws) ! g = xs ! g * ys ! g - zs ! g * ws ! g"
  using assms by simp

lemma nth_blocks3:
  assumes "length X0 = G" "length X1 = G" "g < G"
  shows "(X0 @ X1 @ X2) ! (0 * G + g) = X0 ! g"
    and "(X0 @ X1 @ X2) ! (1 * G + g) = X1 ! g"
    and "(X0 @ X1 @ X2) ! (2 * G + g) = X2 ! g"
  using assms by (simp_all add: nth_append)

lemma cross_product_same:
  assumes sa: "shape a = 3 # r" and sb: "shape b = 3 # r"
    and wa: "well_shaped a" and wb: "well_shaped b"
  shows "\<exists>c. cross_product a b = Inr c \<and> shape c = 3 # r \<and> well_shaped c \<and>
    (\<forall>g < prod_list r.
       component c 0 g = component a 1 g * component b 2 g - component a 2 g * component b 1 g \<and>
       component c 1 g = component a 2 g * component b 0 g - component a 0 g * component b 2 g \<and>
       component c 2 g = component a 0 g * component b 1 g - component a 1 g * component b 0 g)"
proof -
  let ?G = "prod_list r"
  define a0 a1 a2 where "a0 = subarray a 0" and "a1 = subarray a 1" and "a2 = subarray a 2"
  define b0 b1 b2 where "b0 = subarray b 0" and "b1 = subarray b 1" and "b2 = subarray b 2"
  note defs = a0_def a1_def a2_def b0_def b1_def b2_def
  have sh: "shape a0 = r" "shape a1 = r" "shape a2 = r" "shape b0 = r" "shape b1 = r" "shape b2 = r"
    using sa sb by (simp_all add: defs shape_subarray)
  have ws: "well_shaped a0" "well_shaped a1" "well_shaped a2"
    "well_shaped b0" "well_shaped b1" "well_shaped b2"
    unfolding defs using sa sb wa wb by (auto intro: well_shaped_subarray)
  have len: "length (data a0) = ?G" "length (data a1) = ?G" "length (data a2) = ?G"
    "length (data b0) = ?G" "length (data b1) = ?G" "length (data b2) = ?G"
    using ws sh by (simp_all add: well_shaped_def)
  have nth_a: "data a0 ! g = component a 0 g" "data a1 ! g = component a 1 g"
    "data a2 ! g = component a 2 g" if "g < ?G" for g
    unfolding defs using that sa wa by (simp_all add: component_subarray)
  have nth_b: "data b0 ! g = component b 0 g" "data b1 ! g = component b 1 g"
    "data b2 ! g = component b 2 g" if "g < ?G" for g
    unfolding defs using that sb wb by (simp_all add: component_subarray)
  define X0 where "X0 = map2 (-) (map2 (*) (data a1) (data b2)) (map2 (*) (data a2) (data b1))"
  define X1 where "X1 = map2 (-) (map2 (*) (data a2) (data b0)) (map2 (*) (data a0) (data b2))"
  define X2 where "X2 = map2 (-) (map2 (*) (data a0) (data b1)) (map2 (*) (data a1) (data b0))"
  have lX: "length X0 = ?G" "length X1 = ?G" "length X2 = ?G"
    by (simp_all add: X0_def X1_def X2_def len)
  have m0: "mul_sub a1 b2 a2 b1 = Inr (NDArray r X0)"
    and m1: "mul_sub a2 b0 a0 b2 = Inr (NDArray r X1)"
    and m2: "mul_sub a0 b1 a1 b0 = Inr (NDArray r X2)"
    unfolding X0_def X1_def X2_def by (simp_all add: mul_sub_same sh ws)
  have u: "unpack3 a = Inr (a0, a1, a2)" "unpack3 b = Inr (b0, b1, b2)"
    using sa sb by (simp_all add: unpack3_def defs)
  have res: "cross_product a b = Inr (NDArray (3 # r) (X0 @ X1 @ X2))"
    unfolding cross_product_def u ebind.simps prod.case m0 m1 m2
    by (simp add: stack3_def)
  have X0g: "X0 ! g = component a 1 g * component b 2 g - component a 2 g * component b 1 g"
    and X1g: "X1 ! g = component a 2 g * component b 0 g - component a 0 g * component b 2 g"
    and X2g: "X2 ! g = component a 0 g * component b 1 g - component a 1 g * component b 0 g"
    if "g < ?G" for g
    unfolding X0_def X1_def X2_def using that
    by (simp_all add: nth_mul_sub [of g ?G] len nth_a nth_b del: nth_map nth_zip)
  have comp: "component (NDArray (3 # r) (X0 @ X1 @ X2)) 0 g = X0 ! g"
    "component (NDArray (3 # r) (X0 @ X1 @ X2)) 1 g = X1 ! g"
    "component (NDArray (3 # r) (X0 @ X1 @ X2)) 2 g = X2 ! g" if "g < ?G" for g
    using nth_blocks3 [of X0 ?G X1 g X2] lX that by (simp_all add: component_def)
  show ?thesis
    unfolding res
    by (intro exI [of _ "NDArray (3 # r) (X0 @ X1 @ X2)"])
       (simp add: comp X0g X1g X2g well_shaped_def lX del: One_nat_def)
qed

lemma slice_to_3:
  assumes "shape Fk = 6 # r" and "well_shaped Fk"
  shows "slice_to 3 Fk = Inr (NDArray (3 # r) (take (3 * prod_list r) (data Fk)))"
  using assms by (simp add: slice_to_def)

lemma slice_from_3:
  assumes "shape Fk = 6 # r" and "well_shaped Fk"
  shows "slice_from 3 Fk = Inr (NDArray (3 # r) (drop (3 * prod_list r) (data Fk)))"
  using assms by (simp add: slice_from_def)

lemma vec3_take:
  assumes "shape Fk = 6 # r" and "well_shaped Fk" and "g < prod_list r"
  shows "vec3 (NDArray (3 # r) (take (3 * prod_list r) (data Fk))) 0 g = vec3 Fk 0 g"
  using assms by (simp add: vec3_def component_def)

lemma vec3_drop:
  assumes "shape Fk = 6 # r" and "well_shaped Fk" and "g < prod_list r"
  shows "vec3 (NDArray (3 # r) (drop (3 * prod_list r) (data Fk))) 0 g = vec3 Fk 3 g"
  using assms by (simp add: vec3_def component_def well_shaped_def algebra_simps)

lemma cross_product_spec:
  assumes "shape a = 3 # r" and "shape b = 3 # r" and "well_shaped a" and "well_shaped b"
  shows "\<exists>c. cross_product a b = Inr c \<and> shape c = 3 # r \<and> well_shaped c \<and>
    (\<forall>g < prod_list r. vec3 c 0 g = spec_cross (vec3 a 0 g) (vec3 b 0 g))"
  using cross_product_same [OF assms] by (auto simp: vec3_def numeral_2_eq_2)

lemma vec3_map:
  assumes "length xs = 3 * prod_list r" and "g < prod_list r"
  shows "vec3 (NDArray (3 # r) (map f xs)) 0 g = 
    (case vec3 (NDArray (3 # r) xs) 0 g of (x, y, z) \<Rightarrow> (f x, f y, f z))"
  using assms by (simp add: vec3_def component_def)

lemma vec3_map2:
  assumes "length xs = 3 * prod_list r" and "length ys = 3 * prod_list r" and "g < prod_list r"
  shows "vec3 (NDArray (3 # r) (map2 f xs ys)) 0 g = 
    (case (vec3 (NDArray (3 # r) xs) 0 g, vec3 (NDArray (3 # r) ys) 0 g) of
       ((x, y, z), (u, v, w)) \<Rightarrow> (f x u, f y v, f z w))"
  using assms by (simp add: vec3_def component_def)

lemma ndarray_eta: "shape c = s \<Longrightarrow> NDArray s (data c) = c"
  by (cases c) simp

lemma vec3_concat:
  assumes "length xs = 3 * prod_list r" and "length ys = 3 * prod_list r" and "g < prod_list r"
  shows "vec3 (NDArray (6 # r) (xs @ ys)) 0 g = vec3 (NDArray (3 # r) xs) 0 g"
    and "vec3 (NDArray (6 # r) (xs @ ys)) 3 g = vec3 (NDArray (3 # r) ys) 0 g"
  using assms by (simp_all add: vec3_def component_def nth_append algebra_simps mult_2_right)

subsection \<open>The two field derivatives\<close>

lemma dBk_dt_spec:
  assumes sF: "shape Fk = 6 # r" and wF: "well_shaped Fk"
    and sn: "shape nabla = 3 # r" and wn: "well_shaped nabla"
  shows "\<exists>b. dBk_dt nabla Fk = Inr b \<and> shape b = 3 # r \<and> well_shaped b \<and>
    (\<forall>g < prod_list r. vec3 b 0 g = spec_dB_dt (vec3 nabla 0 g) (vec3 Fk 0 g))"
proof -
  let ?G = "prod_list r"
  let ?E = "NDArray (3 # r) (take (3 * ?G) (data Fk))"
  have wE: "well_shaped ?E" using sF wF by (simp add: well_shaped_def)
  obtain c where c: "cross_product nabla ?E = Inr c" "shape c = 3 # r" "well_shaped c"
    and cg: "\<And>g. g < ?G \<Longrightarrow> vec3 c 0 g = spec_cross (vec3 nabla 0 g) (vec3 ?E 0 g)"
    using cross_product_spec [OF sn _ wn wE] by auto
  have lc: "length (data c) = 3 * ?G" using c by (simp add: well_shaped_def)
  let ?b = "NDArray (3 # r) (map ((*) (- \<i>)) (data c))"
  have "mul (scalar (- \<i>)) c = Inr ?b"
    using c by (simp add: mul_def scalar_def bop_scalar_left)
  then have res: "dBk_dt nabla Fk = Inr ?b"
    by (simp add: dBk_dt_def slice_to_3 [OF sF wF] c)
  have "vec3 ?b 0 g = spec_dB_dt (vec3 nabla 0 g) (vec3 Fk 0 g)" if "g < ?G" for g
  proof -
    have "vec3 ?b 0 g = scale3 (- \<i>) (vec3 (NDArray (3 # r) (data c)) 0 g)"
      using vec3_map [OF lc that] by (simp split: prod.splits)
    also have "NDArray (3 # r) (data c) = c" using c by (simp add: ndarray_eta)
    finally show ?thesis
      by (simp only: cg [OF that] vec3_take [OF sF wF that] spec_dB_dt_def)
  qed
  then show ?thesis
    using res lc by (intro exI [of _ ?b]) (simp add: well_shaped_def)
qed

lemma index0_vector:
  assumes "shape w = [n]" and "0 < n" and "well_shaped w"
  shows "index0 w = Inr (NDArray [] [hd (data w)])"
proof -
  from assms have "data w \<noteq> []" by (auto simp: well_shaped_def)
  then have "take (Suc 0) (data w) = [hd (data w)]" by (cases "data w") simp_all
  with assms show ?thesis by (simp add: index0_def subarray_def)
qed

lemma dEk_dt_spec:
  assumes sF: "shape Fk = 6 # r" and wF: "well_shaped Fk"
    and sn: "shape nabla = 3 # r" and wn: "well_shaped nabla"
    and sJ: "shape J = 3 # r" and wJ: "well_shaped J"
    and sw: "shape Omega_cs = [n]" and n: "0 < n" and ww: "well_shaped Omega_cs"
  shows "\<exists>e. dEk_dt nabla Fk J Omega_cs = Inr e \<and> shape e = 3 # r \<and> well_shaped e \<and>
    (\<forall>g < prod_list r.
       vec3 e 0 g = spec_dE_dt (vec3 nabla 0 g) (vec3 Fk 3 g) (vec3 J 0 g) (hd (data Omega_cs)))"
proof -
  let ?G = "prod_list r"
  let ?w = "hd (data Omega_cs)"
  let ?B = "NDArray (3 # r) (drop (3 * ?G) (data Fk))"
  have wB: "well_shaped ?B" using sF wF by (simp add: well_shaped_def)
  obtain c where c: "cross_product nabla ?B = Inr c" "shape c = 3 # r" "well_shaped c"
    and cg: "\<And>g. g < ?G \<Longrightarrow> vec3 c 0 g = spec_cross (vec3 nabla 0 g) (vec3 ?B 0 g)"
    using cross_product_spec [OF sn _ wn wB] by auto
  have lc: "length (data c) = 3 * ?G" using c by (simp add: well_shaped_def)
  have lJ: "length (data J) = 3 * ?G" using sJ wJ by (simp add: well_shaped_def)
  let ?l = "NDArray (3 # r) (map ((*) \<i>) (data c))"
  let ?q = "NDArray (3 # r) (map (\<lambda>x. x / ?w) (data J))"
  let ?e = "NDArray (3 # r) (map2 (-) (map ((*) \<i>) (data c)) (map (\<lambda>x. x / ?w) (data J)))"
  have 1: "mul (scalar \<i>) c = Inr ?l"
    using c by (simp add: mul_def scalar_def bop_scalar_left)
  have 2: "index0 Omega_cs = Inr (NDArray [] [?w])"
    using sw n ww by (rule index0_vector)
  have 3: "divide_arr J (NDArray [] [?w]) = Inr ?q"
    using sJ wJ by (simp add: divide_arr_def bop_scalar_right)
  have 4: "sub ?l ?q = Inr ?e"
    unfolding sub_def by (subst bop_same_shape) (simp_all add: well_shaped_def lc lJ)
  have res: "dEk_dt nabla Fk J Omega_cs = Inr ?e"
    by (simp add: dEk_dt_def slice_from_3 [OF sF wF] c 1 2 3 4)
  have "vec3 ?e 0 g = spec_dE_dt (vec3 nabla 0 g) (vec3 Fk 3 g) (vec3 J 0 g) ?w"
    if "g < ?G" for g
  proof -
    have "vec3 ?e 0 g = minus3 (vec3 ?l 0 g) (vec3 ?q 0 g)"
      using vec3_map2 [of "map ((*) \<i>) (data c)" r "map (\<lambda>x. x / ?w) (data J)" g "(-)"] lc lJ that
      by (simp split: prod.splits)
    also have "vec3 ?l 0 g = scale3 \<i> (vec3 (NDArray (3 # r) (data c)) 0 g)"
      using vec3_map [OF lc that] by (simp split: prod.splits)
    also have "NDArray (3 # r) (data c) = c" using c by (simp add: ndarray_eta)
    also have "vec3 ?q 0 g = div3 (vec3 (NDArray (3 # r) (data J)) 0 g) ?w"
      using vec3_map [OF lJ that] by (simp split: prod.splits)
    also have "NDArray (3 # r) (data J) = J" using sJ by (simp add: ndarray_eta)
    finally show ?thesis
      by (simp only: cg [OF that] vec3_drop [OF sF wF that] spec_dE_dt_def)
  qed
  then show ?thesis
    using res lc lJ by (intro exI [of _ ?e]) (simp add: well_shaped_def)
qed

subsection \<open>ode_system on a valid state\<close>

lemma ode_system_result:
  assumes len: "length y = Nn * Nm * Np * Ns * Nx * Ny * Nz + 6 * Ny * Nx * Nz"
    and args: "valid_args Nx Ny Nz Ns args"
    and coll: "collaborators_return M Nx Ny Nz Nn Nm Np Ns y args d J"
    and J: "shape J = [3, Ny, Nx, Nz]" "well_shaped J"
  shows "\<exists>e b. dEk_dt (args_nabla args) (Fk_block Nx Ny Nz Nn Nm Np Ns y) J (args_Omega_cs args) = Inr e \<and>
     dBk_dt (args_nabla args) (Fk_block Nx Ny Nz Nn Nm Np Ns y) = Inr b \<and>
     shape e = [3, Ny, Nx, Nz] \<and> well_shaped e \<and> shape b = [3, Ny, Nx, Nz] \<and> well_shaped b \<and>
     ode_system M Nx Ny Nz Nn Nm Np Ns t y args = Inr (data d @ data e @ data b)"
proof -
  let ?Fk = "Fk_block Nx Ny Nz Nn Nm Np Ns y" and ?Ck = "Ck_block Nx Ny Nz Nn Nm Np Ns y"
  have sF: "shape ?Fk = 6 # [Ny, Nx, Nz]" by (simp add: Fk_block_def)
  have wF: "well_shaped ?Fk" using len by (rule well_shaped_Fk_block)
  from args have sn: "shape (args_nabla args) = 3 # [Ny, Nx, Nz]"
    and wn: "well_shaped (args_nabla args)"
    and sw: "shape (args_Omega_cs args) = [Ns]" and ww: "well_shaped (args_Omega_cs args)"
    and Ns: "0 < Ns"
    by (simp_all add: valid_args_def)
  obtain b where b: "dBk_dt (args_nabla args) ?Fk = Inr b" "shape b = [3, Ny, Nx, Nz]" "well_shaped b"
    using dBk_dt_spec [OF sF wF sn wn] by auto
  obtain e where e: "dEk_dt (args_nabla args) ?Fk J (args_Omega_cs args) = Inr e"
    "shape e = [3, Ny, Nx, Nz]" "well_shaped e"
    using dEk_dt_spec [OF sF wF sn wn _ J(2) sw Ns ww] J(1) by auto
  from coll obtain F C where F: "to_real_space M ?Fk = Inr F" and C: "to_real_space M ?Ck = Inr C"
    and HF: "Hermite_Fourier_system M (?Ck, C, F) (hf_params args) (Nn, Nm, Np, Ns)
               (twothirds_mask M Ny Nx Nz) = Inr d"
    and PC: "plasma_current M (args_qs args) (args_alpha_s args) (args_u_s args) ?Ck
               (Nn, Nm, Np, Ns) = Inr J"
    by (auto simp: collaborators_return_def Let_def split: sum.splits)
  have "ode_system M Nx Ny Nz Nn Nm Np Ns t y args = Inr (data d @ data e @ data b)"
    by (simp add: ode_system_def unpack_state_blocks [OF len] F C HF PC b e concatenate0_def)
  with b e show ?thesis by blast
qed

lemma ode_system_fields:
  assumes len: "length y = Nn * Nm * Np * Ns * Nx * Ny * Nz + 6 * Ny * Nx * Nz"
    and args: "valid_args Nx Ny Nz Ns args"
    and coll: "collaborators_return M Nx Ny Nz Nn Nm Np Ns y args d J"
    and J: "shape J = [3, Ny, Nx, Nz]" "well_shaped J"
  shows "\<exists>dFk. ode_system M Nx Ny Nz Nn Nm Np Ns t y args = Inr (data d @ data dFk) \<and>
     shape dFk = [6, Ny, Nx, Nz] \<and> well_shaped dFk \<and>
     (\<forall>g < Ny * Nx * Nz.
        vec3 dFk 0 g =
          spec_dE_dt (vec3 (args_nabla args) 0 g) (vec3 (Fk_block Nx Ny Nz Nn Nm Np Ns y) 3 g)
            (vec3 J 0 g) (hd (data (args_Omega_cs args))) \<and>
        vec3 dFk 3 g =
          spec_dB_dt (vec3 (args_nabla args) 0 g) (vec3 (Fk_block Nx Ny Nz Nn Nm Np Ns y) 0 g))"
proof -
  let ?Fk = "Fk_block Nx Ny Nz Nn Nm Np Ns y"
  let ?r = "[Ny, Nx, Nz]"
  have G: "prod_list ?r = Ny * Nx * Nz" by (simp add: mult.assoc)
  have sF: "shape ?Fk = 6 # ?r" by (simp add: Fk_block_def)
  have wF: "well_shaped ?Fk" using len by (rule well_shaped_Fk_block)
  from args have sn: "shape (args_nabla args) = 3 # ?r"
    and wn: "well_shaped (args_nabla args)"
    and sw: "shape (args_Omega_cs args) = [Ns]" and ww: "well_shaped (args_Omega_cs args)"
    and Ns: "0 < Ns"
    by (simp_all add: valid_args_def)
  obtain e b where e: "dEk_dt (args_nabla args) ?Fk J (args_Omega_cs args) = Inr e"
    and b: "dBk_dt (args_nabla args) ?Fk = Inr b"
    and se: "shape e = 3 # ?r" and we: "well_shaped e"
    and sb: "shape b = 3 # ?r" and wb: "well_shaped b"
    and res: "ode_system M Nx Ny Nz Nn Nm Np Ns t y args = Inr (data d @ data e @ data b)"
    using ode_system_result [OF len args coll J, of t] by auto
  have le: "length (data e) = 3 * prod_list ?r" and lb: "length (data b) = 3 * prod_list ?r"
    using se we sb wb by (simp_all add: well_shaped_def)
  from dBk_dt_spec [OF sF wF sn wn] b
  have bg: "vec3 b 0 g = spec_dB_dt (vec3 (args_nabla args) 0 g) (vec3 ?Fk 0 g)"
    if "g < prod_list ?r" for g using that by auto
  from dEk_dt_spec [OF sF wF sn wn _ J(2) sw Ns ww] J(1) e
  have eg: "vec3 e 0 g = spec_dE_dt (vec3 (args_nabla args) 0 g) (vec3 ?Fk 3 g) (vec3 J 0 g)
       (hd (data (args_Omega_cs args)))"
    if "g < prod_list ?r" for g using that by auto
  let ?dFk = "NDArray (6 # ?r) (data e @ data b)"
  have "vec3 ?dFk 0 g = vec3 e 0 g \<and> vec3 ?dFk 3 g = vec3 b 0 g" if "g < prod_list ?r" for g
    using vec3_concat [OF le lb that] se sb by (simp only: ndarray_eta)
  then have "\<forall>g < Ny * Nx * Nz.
        vec3 ?dFk 0 g =
          spec_dE_dt (vec3 (args_nabla args) 0 g) (vec3 ?Fk 3 g)
            (vec3 J 0 g) (hd (data (args_Omega_cs args))) \<and>
        vec3 ?dFk 3 g = spec_dB_dt (vec3 (args_nabla args) 0 g) (vec3 ?Fk 0 g)"
    using bg eg unfolding G by simp
  moreover have "well_shaped ?dFk" using le lb by (simp add: well_shaped_def)
  moreover have "ode_system M Nx Ny Nz Nn Nm Np Ns t y args = Inr (data d @ data ?dFk)"
    using res by simp
  ultimately show ?thesis
    by (intro exI [of _ ?dFk]) simp
qed

lemma ebind_Inr_iff: "ebind m f = Inr y \<longleftrightarrow> (\<exists>x. m = Inr x \<and> f x = Inr y)"
  by (cases m) auto

lemma ode_system_Inr:
  assumes "ode_system M Nx Ny Nz Nn Nm Np Ns t y args = Inr dy"
  shows "\<exists>Ck Fk dC dE dB. unpack_state Nx Ny Nz Nn Nm Np Ns y = Inr (Ck, Fk) \<and>
     dBk_dt (args_nabla args) Fk = Inr dB \<and> dy = (data dC @ data dE) @ data dB"
proof -
  from assms obtain Ck Fk dC dE dB dF
    where "unpack_state Nx Ny Nz Nn Nm Np Ns y = Inr (Ck, Fk)"
      and "dBk_dt (args_nabla args) Fk = Inr dB"
      and "concatenate0 dE dB = Inr dF" and "dy = data dC @ data dF"
    unfolding ode_system_def Let_def by (auto simp: ebind_Inr_iff)
  moreover from this have "data dF = data dE @ data dB"
    by (auto simp: concatenate0_def split: list.splits if_splits)
  ultimately show ?thesis by auto
qed

lemma dBk_dt_block:
  assumes len: "length y = Nn * Nm * Np * Ns * Nx * Ny * Nz + 6 * Ny * Nx * Nz"
  shows "dBk_dt nabla (Fk_block Nx Ny Nz Nn Nm Np Ns y) =
     ebind (cross_product nabla
        (NDArray [3, Ny, Nx, Nz]
           (take (3 * Ny * Nx * Nz) (drop (Nn * Nm * Np * Ns * Nx * Ny * Nz) y))))
       (\<lambda>c. mul (scalar (- \<i>)) c)"
proof -
  have "slice_to 3 (Fk_block Nx Ny Nz Nn Nm Np Ns y) =
      Inr (NDArray (3 # [Ny, Nx, Nz]) (take (3 * prod_list [Ny, Nx, Nz])
         (data (Fk_block Nx Ny Nz Nn Nm Np Ns y))))"
    by (rule slice_to_3) (simp_all add: Fk_block_def well_shaped_Fk_block [OF len, unfolded Fk_block_def])
  then show ?thesis
    by (simp add: dBk_dt_def Fk_block_def mult.assoc)
qed

subsection \<open>The concrete instance\<close>

lemmas example_defs = example_model_def example_args_def example_state_def example_state'_def
  collaborators_return_def valid_args_def Ck_block_def Fk_block_def to_real_space_def
  slice_to_def well_shaped_def

lemma example_hyps:
  "length example_state = 3 * 1 * 1 * 1 * 2 * 1 * 1 + 6 * 1 * 2 * 1"
  "valid_args 2 1 1 1 example_args"
  "collaborators_return example_model 2 1 1 3 1 1 1 example_state example_args
     (NDArray [3, 1, 2, 1] [1, 2, 3, 4, 5, 6]) (NDArray [3, 1, 2, 1] [1, 2, 3, 4, 5, 6])"
  "shape (NDArray [3, 1, 2, 1] [1, 2, 3, 4, 5, 6]) = [3, 1, 2, 1]"
  "well_shaped (NDArray [3, 1, 2, 1] [1, 2, 3, 4, 5, 6])"
  by (simp_all add: example_defs)

lemmas ode_defs = ode_system_def unpack_state_def reshape_def to_real_space_def dBk_dt_def dEk_dt_def
  slice_to_def slice_from_def index0_def concatenate0_def divide_arr_def scalar_def hf_params_def

lemma example_value:
  "ode_system example_model 2 1 1 3 1 1 1 (0::real) example_state example_args =
   Inr [1, 2, 3, 4, 5, 6,
        - (1 / 2) + 6 * \<i>, - 1 + 3 * \<i>, - (3 / 2), - 2 - \<i>, - (5 / 2), - 3 - 3 * \<i>,
        - 4 * \<i>, 3, 0, - 1, 2 * \<i>, - \<i>]"
  by (simp add: example_defs ode_defs eval_defs upt_rec complex_eq_iff eval_nat_numeral)

section \<open>Claims about ode_system\<close>

text \<open>
  C1: on every valid unpacked state the field block of the derivative computed by
  \<open>ode_system\<close> has exactly six components; at every grid point its first three components
  are \<open>dE/dt = i (nabla \<times> B) - J / Omega_ce\<close> and its last three are
  \<open>dB/dt = -i (nabla \<times> E)\<close>, where \<open>E\<close> and \<open>B\<close> are the first and the last three
  components of \<open>Fk\<close>, \<open>J\<close> is the output of \<open>plasma_current\<close>, \<open>Omega_ce\<close> the first entry of
  \<open>Omega_cs\<close>, and the cross product is the standard one.
\<close>

theorem ode_system_maxwell:
  assumes "length y = Nn * Nm * Np * Ns * Nx * Ny * Nz + 6 * Ny * Nx * Nz"
    and "valid_args Nx Ny Nz Ns args"
    and "collaborators_return M Nx Ny Nz Nn Nm Np Ns y args d J"
    and "shape J = [3, Ny, Nx, Nz]" and "well_shaped J"
  shows "\<exists>dFk. ode_system M Nx Ny Nz Nn Nm Np Ns t y args = Inr (data d @ data dFk) \<and>
     shape dFk = [6, Ny, Nx, Nz] \<and> well_shaped dFk \<and>
     (\<forall>g < Ny * Nx * Nz.
        vec3 dFk 0 g =
          spec_dE_dt (vec3 (args_nabla args) 0 g) (vec3 (Fk_block Nx Ny Nz Nn Nm Np Ns y) 3 g)
            (vec3 J 0 g) (hd (data (args_Omega_cs args))) \<and>
        vec3 dFk 3 g =
          spec_dB_dt (vec3 (args_nabla args) 0 g) (vec3 (Fk_block Nx Ny Nz Nn Nm Np Ns y) 0 g))"
  using assms by (rule ode_system_fields)

theorem ode_system_maxwell_witness:
  "length example_state = 3 * 1 * 1 * 1 * 2 * 1 * 1 + 6 * 1 * 2 * 1 \<and>
   valid_args 2 1 1 1 example_args \<and>
   collaborators_return example_model 2 1 1 3 1 1 1 example_state example_args
     (NDArray [3, 1, 2, 1] [1, 2, 3, 4, 5, 6]) (NDArray [3, 1, 2, 1] [1, 2, 3, 4, 5, 6]) \<and>
   shape (NDArray [3, 1, 2, 1] [1, 2, 3, 4, 5, 6]) = [3, 1, 2, 1] \<and>
   well_shaped (NDArray [3, 1, 2, 1] [1, 2, 3, 4, 5, 6]) \<and>
   (\<exists>dFk. ode_system example_model 2 1 1 3 1 1 1 (0::real) example_state example_args
            = Inr (data (NDArray [3, 1, 2, 1] [1, 2, 3, 4, 5, 6]) @ data dFk) \<and>
     shape dFk = [6, 1, 2, 1] \<and> well_shaped dFk \<and>
     (\<forall>g < 1 * 2 * 1.
        vec3 dFk 0 g =
          spec_dE_dt (vec3 (args_nabla example_args) 0 g)
            (vec3 (Fk_block 2 1 1 3 1 1 1 example_state) 3 g)
            (vec3 (NDArray [3, 1, 2, 1] [1, 2, 3, 4, 5, 6]) 0 g)
            (hd (data (args_Omega_cs example_args))) \<and>
        vec3 dFk 3 g =
          spec_dB_dt (vec3 (args_nabla example_args) 0 g)
            (vec3 (Fk_block 2 1 1 3 1 1 1 example_state) 0 g)))"
  using example_hyps
    ode_system_maxwell [OF example_hyps, of "0::real"]
  by blast




text \<open>
  C10: the magnetic part of the derivative does not depend on the distribution
  coefficients.  For two states whose electric-field coefficients agree (in particular for
  two states with the same \<open>Fk\<close>), whatever their \<open>Ck\<close> blocks, the last \<open>3*Ny*Nx*Nz\<close>
  entries of the two derivatives returned by \<open>ode_system\<close> are the same.
\<close>

theorem dB_dt_independent_of_Ck:
  assumes nabla: "shape (args_nabla args) = [3, Ny, Nx, Nz]" "well_shaped (args_nabla args)"
    and r1: "ode_system M Nx Ny Nz Nn Nm Np Ns t1 y1 args = Inr d1"
    and r2: "ode_system M Nx Ny Nz Nn Nm Np Ns t2 y2 args = Inr d2"
    and agree: "take (3 * Ny * Nx * Nz) (drop (Ns * Nn * Nm * Np * Ny * Nx * Nz) y1) =
                take (3 * Ny * Nx * Nz) (drop (Ns * Nn * Nm * Np * Ny * Nx * Nz) y2)"
  shows "drop (length d1 - 3 * Ny * Nx * Nz) d1 = drop (length d2 - 3 * Ny * Nx * Nz) d2"
proof -
  let ?T = "Nn * Nm * Np * Ns * Nx * Ny * Nz"
  have T: "Ns * Nn * Nm * Np * Ny * Nx * Nz = ?T"
    by (simp add: mult.assoc mult.left_commute mult.commute)
  have last: "\<exists>dB. dBk_dt (args_nabla args) (Fk_block Nx Ny Nz Nn Nm Np Ns y) = Inr dB \<and>
      drop (length dy - 3 * Ny * Nx * Nz) dy = data dB"
    if r: "ode_system M Nx Ny Nz Nn Nm Np Ns t y args = Inr dy" for t y dy
  proof -
    from ode_system_Inr [OF r] obtain Ck Fk dC dE dB
      where u: "unpack_state Nx Ny Nz Nn Nm Np Ns y = Inr (Ck, Fk)"
        and dB: "dBk_dt (args_nabla args) Fk = Inr dB"
        and dy: "dy = (data dC @ data dE) @ data dB"
      by blast
    have len: "length y = ?T + 6 * Ny * Nx * Nz" using u by (rule unpack_state_length)
    have Fk: "Fk = Fk_block Nx Ny Nz Nn Nm Np Ns y"
      using u unpack_state_blocks [OF len] by simp
    have "shape (Fk_block Nx Ny Nz Nn Nm Np Ns y) = 6 # [Ny, Nx, Nz]"
      by (simp add: Fk_block_def)
    from dBk_dt_spec [OF this well_shaped_Fk_block [OF len], of "args_nabla args"] nabla dB
    have "shape dB = [3, Ny, Nx, Nz]" "well_shaped dB" unfolding Fk by auto
    then have "length (data dB) = 3 * Ny * Nx * Nz"
      by (simp add: well_shaped_def mult.assoc)
    with dB show ?thesis unfolding Fk dy by auto
  qed
  from last [OF r1] last [OF r2] obtain b1 b2
    where b1: "dBk_dt (args_nabla args) (Fk_block Nx Ny Nz Nn Nm Np Ns y1) = Inr b1"
      and b2: "dBk_dt (args_nabla args) (Fk_block Nx Ny Nz Nn Nm Np Ns y2) = Inr b2"
      and d: "drop (length d1 - 3 * Ny * Nx * Nz) d1 = data b1"
        "drop (length d2 - 3 * Ny * Nx * Nz) d2 = data b2"
    by blast
  have len: "length y1 = ?T + 6 * Ny * Nx * Nz" "length y2 = ?T + 6 * Ny * Nx * Nz"
    using ode_system_Inr [OF r1] ode_system_Inr [OF r2] by (auto dest: unpack_state_length)
  have "dBk_dt (args_nabla args) (Fk_block Nx Ny Nz Nn Nm Np Ns y1) =
        dBk_dt (args_nabla args) (Fk_block Nx Ny Nz Nn Nm Np Ns y2)"
    unfolding dBk_dt_block [OF len(1)] dBk_dt_block [OF len(2)] agree [unfolded T] ..
  with b1 b2 d show ?thesis by simp
qed

theorem dB_dt_independent_of_Ck_witness:
  "shape (args_nabla example_args) = [3, 1, 2, 1] \<and> well_shaped (args_nabla example_args) \<and>
   take (3 * 1 * 2 * 1) (drop (1 * 3 * 1 * 1 * 1 * 2 * 1) example_state) =
     take (3 * 1 * 2 * 1) (drop (1 * 3 * 1 * 1 * 1 * 2 * 1) example_state') \<and>
   take 6 example_state \<noteq> take 6 example_state' \<and>
   (\<exists>d1 d2.
      ode_system example_model 2 1 1 3 1 1 1 (0::real) example_state example_args = Inr d1 \<and>
      ode_system example_model 2 1 1 3 1 1 1 (1::real) example_state' example_args = Inr d2 \<and>
      d1 \<noteq> d2 \<and>
      drop (length d1 - 3 * 1 * 2 * 1) d1 = drop (length d2 - 3 * 1 * 2 * 1) d2)"
proof -
  have h: "shape (args_nabla example_args) = [3, 1, 2, 1]" "well_shaped (args_nabla example_args)"
    "take (3 * 1 * 2 * 1) (drop (1 * 3 * 1 * 1 * 1 * 2 * 1) example_state) =
     take (3 * 1 * 2 * 1) (drop (1 * 3 * 1 * 1 * 1 * 2 * 1) example_state')"
    "take 6 example_state \<noteq> take 6 example_state'"
    by (simp_all add: example_defs)
  obtain d1 where d1: "ode_system example_model 2 1 1 3 1 1 1 (0::real) example_state example_args = Inr d1"
    "hd d1 = 1"
    by (simp add: example_defs ode_defs eval_defs upt_rec eval_nat_numeral)
  obtain d2 where d2: "ode_system example_model 2 1 1 3 1 1 1 (1::real) example_state' example_args = Inr d2"
    "hd d2 = 9"
    by (simp add: example_defs ode_defs eval_defs upt_rec eval_nat_numeral)
  have "d1 \<noteq> d2" using d1(2) d2(2) by auto
  with h d1 d2 dB_dt_independent_of_Ck [OF h(1,2) d1(1) d2(1) h(3)] show ?thesis by blast
qed

section \<open>Properties of simulation\<close>

subsection \<open>simulation around the call of the integrator\<close>

lemma lookup_Inr: "lookup d k = Inr v \<longleftrightarrow> d k = Some v"
  by (simp add: lookup_def split: option.splits)

lemma lookup_Some: "d k = Some v \<Longrightarrow> lookup d k = Inr v"
  by (simp add: lookup_def)

lemma simulation_unfold:
  assumes "initialize_simulation_parameters Dr inp (Nx, Ny, Nz, Nn, Nm, Np, Ns) timesteps dt = Inr p"
    and "p ''Ck_0'' = Some c0" and "p ''Fk_0'' = Some f0" and "p ''t_max'' = Some tm"
    and "p ''ode_tolerance'' = Some tol" and "build_args p Nx Ny Nz Nn Nm Np Ns = Inr args"
  shows "simulation M Dr inp Nx Ny Nz Nn Nm Np Ns timesteps dt solver =
     ebind (diffeqsolve Dr
              (solver_request M Nx Ny Nz Nn Nm Np Ns timesteps dt solver c0 f0 tm tol args))
       (assemble Dr p tm timesteps Nx Ny Nz Nn Nm Np Ns)"
  using assms
  by (simp add: simulation_def lookup_Some Let_def solver_request_def assemble_def [abs_def])

lemma simulation_Inr:
  assumes "simulation M Dr inp Nx Ny Nz Nn Nm Np Ns timesteps dt solver = Inr out"
  shows "\<exists>p c0 f0 tm tol args sol Ck Fk dCk.
     initialize_simulation_parameters Dr inp (Nx, Ny, Nz, Nn, Nm, Np, Ns) timesteps dt = Inr p \<and>
     p ''Ck_0'' = Some c0 \<and> p ''Fk_0'' = Some f0 \<and> p ''t_max'' = Some tm \<and>
     p ''ode_tolerance'' = Some tol \<and> build_args p Nx Ny Nz Nn Nm Np Ns = Inr args \<and>
     diffeqsolve Dr (solver_request M Nx Ny Nz Nn Nm Np Ns timesteps dt solver c0 f0 tm tol args)
       = Inr sol \<and>
     trajectory Nx Ny Nz Nn Nm Np Ns sol = Inr (Ck, Fk, dCk) \<and>
     diagnostics Dr ([''Ck'' \<mapsto> Ck, ''Fk'' \<mapsto> Fk, ''time'' \<mapsto> linspace0 tm timesteps,
                      ''dCk'' \<mapsto> dCk] ++ p) = Inr out"
proof -
  from assms obtain p c0 f0 tm args tol tol' tm' sol tr where
    1: "initialize_simulation_parameters Dr inp (Nx, Ny, Nz, Nn, Nm, Np, Ns) timesteps dt = Inr p"
    and 2: "p ''Ck_0'' = Some c0" "p ''Fk_0'' = Some f0" "p ''t_max'' = Some tm"
      "build_args p Nx Ny Nz Nn Nm Np Ns = Inr args" "p ''ode_tolerance'' = Some tol"
    unfolding simulation_def Let_def
    by (auto simp: ebind_Inr_iff lookup_Inr)
  from assms have "ebind (diffeqsolve Dr
              (solver_request M Nx Ny Nz Nn Nm Np Ns timesteps dt solver c0 f0 tm tol args))
       (assemble Dr p tm timesteps Nx Ny Nz Nn Nm Np Ns) = Inr out"
    unfolding simulation_unfold [OF 1 2(1,2,3,5,4)] .
  then obtain sol Ck Fk dCk where
    "diffeqsolve Dr (solver_request M Nx Ny Nz Nn Nm Np Ns timesteps dt solver c0 f0 tm tol args)
       = Inr sol"
    "trajectory Nx Ny Nz Nn Nm Np Ns sol = Inr (Ck, Fk, dCk)"
    "diagnostics Dr ([''Ck'' \<mapsto> Ck, ''Fk'' \<mapsto> Fk, ''time'' \<mapsto> linspace0 tm timesteps,
                      ''dCk'' \<mapsto> dCk] ++ p) = Inr out"
    by (auto simp: ebind_Inr_iff assemble_def)
  with 1 2 show ?thesis by blast
qed

lemma simulation_output_keys:
  assumes sim: "simulation M Dr inp Nx Ny Nz Nn Nm Np Ns timesteps dt solver = Inr out"
    and init: "initialize_simulation_parameters Dr inp (Nx, Ny, Nz, Nn, Nm, Np, Ns) timesteps dt = Inr p"
    and keep: "keeps (diagnostics Dr) ({''Ck'', ''Fk'', ''time'', ''dCk''} \<union> dom p)"
  shows "{''Ck'', ''Fk'', ''time'', ''dCk''} \<union> dom p \<subseteq> dom out \<and> (\<forall>k\<in>dom p. out k = p k)"
proof -
  from simulation_Inr [OF sim] init obtain tm Ck Fk dCk where
    d: "diagnostics Dr ([''Ck'' \<mapsto> Ck, ''Fk'' \<mapsto> Fk, ''time'' \<mapsto> linspace0 tm timesteps,
                      ''dCk'' \<mapsto> dCk] ++ p) = Inr out"
    by auto
  let ?t = "[''Ck'' \<mapsto> Ck, ''Fk'' \<mapsto> Fk, ''time'' \<mapsto> linspace0 tm timesteps, ''dCk'' \<mapsto> dCk]"
  have out: "out k = (?t ++ p) k" if "k \<in> {''Ck'', ''Fk'', ''time'', ''dCk''} \<union> dom p" for k
    using keep d that unfolding keeps_def by blast
  have "dom (?t ++ p) = {''Ck'', ''Fk'', ''time'', ''dCk''} \<union> dom p"
    by auto
  then have "k \<in> dom out" if "k \<in> {''Ck'', ''Fk'', ''time'', ''dCk''} \<union> dom p" for k
    using out [OF that] that by (metis domIff)
  moreover have "out k = p k" if "k \<in> dom p" for k
    using out [of k] that by (auto simp: map_add_def split: option.splits)
  ultimately show ?thesis by blast
qed

lemma simulation_one_call:
  assumes init: "initialize_simulation_parameters Dr inp (Nx, Ny, Nz, Nn, Nm, Np, Ns) timesteps dt = Inr p"
    and keys: "p ''Ck_0'' = Some c0" "p ''Fk_0'' = Some f0" "p ''t_max'' = Some tm"
      "p ''ode_tolerance'' = Some tol" "build_args p Nx Ny Nz Nn Nm Np Ns = Inr args"
  shows "\<exists>req.
     req_term req = ode_system M Nx Ny Nz Nn Nm Np Ns \<and>
     req_rtol req = tol \<and> req_atol req = tol \<and> req_max_steps req = 1000000 \<and>
     req_saveat_ts req = linspace0 tm timesteps \<and>
     req_y0 req = data c0 @ data f0 \<and> req_args req = args \<and> req_solver req = solver \<and>
     req_t0 req = 0 \<and> req_t1 req = tm \<and> req_dt0 req = dt \<and>
     (\<forall>e. diffeqsolve Dr req = Inl e \<longrightarrow>
          simulation M Dr inp Nx Ny Nz Nn Nm Np Ns timesteps dt solver = Inl e) \<and>
     (\<forall>s. s req = diffeqsolve Dr req \<longrightarrow>
          simulation M (Dr\<lparr>diffeqsolve := s\<rparr>) inp Nx Ny Nz Nn Nm Np Ns timesteps dt solver =
          simulation M Dr inp Nx Ny Nz Nn Nm Np Ns timesteps dt solver)"
proof -
  let ?req = "solver_request M Nx Ny Nz Nn Nm Np Ns timesteps dt solver c0 f0 tm tol args"
  have u: "simulation M Dr inp Nx Ny Nz Nn Nm Np Ns timesteps dt solver =
     ebind (diffeqsolve Dr ?req) (assemble Dr p tm timesteps Nx Ny Nz Nn Nm Np Ns)"
    using init keys by (rule simulation_unfold)
  have u': "simulation M (Dr\<lparr>diffeqsolve := s\<rparr>) inp Nx Ny Nz Nn Nm Np Ns timesteps dt solver =
     ebind (s ?req) (assemble Dr p tm timesteps Nx Ny Nz Nn Nm Np Ns)" for s
    using simulation_unfold [of "Dr\<lparr>diffeqsolve := s\<rparr>" inp Nx Ny Nz Nn Nm Np Ns timesteps dt p
        c0 f0 tm tol args M solver] init keys
    by (simp add: assemble_def [abs_def])
  show ?thesis
    by (intro exI [of _ ?req]) (simp add: u u', simp add: solver_request_def)
qed

subsection \<open>Row-major positions\<close>

lemma radix_lt: "a < A \<Longrightarrow> y < B \<Longrightarrow> a * B + y < A * (B::nat)"
proof -
  assume "a < A" "y < B"
  then have "a * B + y < Suc a * B" by simp
  also have "\<dots> \<le> A * B" using \<open>a < A\<close> by (intro mult_le_mono1) simp
  finally show ?thesis .
qed

lemma radix_inj:
  assumes "y < B" "j < B" "a * B + y = i * B + (j::nat)"
  shows "a = i \<and> y = j"
proof -
  have "(a * B + y) div B = a" "(a * B + y) mod B = y" using assms(1) by simp_all
  moreover have "(i * B + j) div B = i" "(i * B + j) mod B = j" using assms(2) by simp_all
  ultimately show ?thesis using assms(3) by simp
qed

lemma ravel5: "ravel [T, A, B, C, D] [t, a, y, x, z] = (((t * A + a) * B + y) * C + x) * D + z"
  by (simp add: ravel_def)

lemma ravel5_lt:
  fixes t :: nat
  assumes "t < T" "a < A" "y < B" "x < C" "z < D"
  shows "(((t * A + a) * B + y) * C + x) * D + z < T * A * B * C * D"
proof -
  have "t * A + a < T * A" using assms(1,2) by (rule radix_lt)
  then have "(t * A + a) * B + y < T * A * B" using assms(3) by (rule radix_lt)
  then have "((t * A + a) * B + y) * C + x < T * A * B * C" using assms(4) by (rule radix_lt)
  then show ?thesis using assms(5) by (rule radix_lt)
qed

lemma ravel5_mod:
  fixes t :: nat
  assumes "a < A" "y < B" "x < C" "z < D"
  shows "((((t * A + a) * B + y) * C + x) * D + z) mod (A * B * C * D)
       = ((a * B + y) * C + x) * D + z"
proof -
  let ?S = "A * B * C * D" and ?r = "((a * B + y) * C + x) * D + z"
  have "?r < ?S"
    using ravel5_lt [of 0 1 a A y B x C z D] assms by simp
  moreover have "(((t * A + a) * B + y) * C + x) * D + z = t * ?S + ?r"
    by (simp add: algebra_simps)
  ultimately show ?thesis
    by (simp only: mod_mult_self3 mod_less)
qed

lemma ravel5_inj:
  assumes "y < B" "x < C" "z < D" "j < B" "k < C" "l < D"
    and "((a * B + y) * C + x) * D + z = ((i * B + j) * C + k) * D + (l::nat)"
  shows "a = i \<and> y = j \<and> x = k \<and> z = l"
proof -
  from radix_inj [OF assms(3,6,7)] have 1: "(a * B + y) * C + x = (i * B + j) * C + k" "z = l"
    by simp_all
  from radix_inj [OF assms(2,5) 1(1)] have 2: "a * B + y = i * B + j" "x = k" by simp_all
  from radix_inj [OF assms(1,4) 2(1)] 1 2 show ?thesis by simp
qed

subsection \<open>The perturbation\<close>

lemma at_set0_frame:
  assumes r: "at_set0 i j k l a = Inr b" and s: "shape a = [T, A, B, C, D]"
    and rng: "t < T" "a' < A" "y < B" "x < C" "z < D"
    and ws: "well_shaped a"
    and ne: "\<not> (a' = i \<and> y = j \<and> x = k \<and> z = l)"
  shows "entry b [t, a', y, x, z] = entry a [t, a', y, x, z]"
    and "shape b = shape a" and "well_shaped b"
proof -
  let ?n = "(((t * A + a') * B + y) * C + x) * D + z"
  have len: "?n < length (data a)"
    using ravel5_lt [OF rng] ws s by (simp add: well_shaped_def mult.assoc)
  show "shape b = shape a" "well_shaped b"
    using r s ws by (auto simp: at_set0_def well_shaped_def split: if_splits)
  show "entry b [t, a', y, x, z] = entry a [t, a', y, x, z]"
  proof (cases "i < A \<and> j < B \<and> k < C \<and> l < D")
    case False
    with r s have "b = a" by (auto simp: at_set0_def split: if_splits)
    then show ?thesis by simp
  next
    case True
    with r s have b: "b = NDArray (shape a)
        (map (\<lambda>(n, x). if n mod (A * B * C * D) = ((i * B + j) * C + k) * D + l then 0 else x)
           (enumerate 0 (data a)))"
      by (auto simp: at_set0_def split: if_splits)
    have "?n mod (A * B * C * D) \<noteq> ((i * B + j) * C + k) * D + l"
      unfolding ravel5_mod [OF rng(2-5)]
      using ravel5_inj [of y B x C z D j k l a' i] rng True ne by blast
    then show ?thesis
      unfolding b entry_def using len s
      by (simp add: ravel5 nth_enumerate_eq)
  qed
qed

lemma trajectory_Inr:
  assumes "trajectory Nx Ny Nz Nn Nm Np Ns sol = Inr (Ck, Fk, dCk)"
  shows "\<exists>n d0. len (sol_ts sol) = Inr n \<and>
     shape Ck = [n, Ns * Nn * Nm * Np, Ny, Nx, Nz] \<and> well_shaped Ck \<and>
     shape Fk = [n, 6, Ny, Nx, Nz] \<and> well_shaped Fk \<and>
     at_set0 0 0 1 0 Ck = Inr d0 \<and> at_set0 (Nn * Nm * Np) 0 1 0 d0 = Inr dCk"
  using assms unfolding trajectory_def
  by (auto simp: ebind_Inr_iff reshape_def well_shaped_def split: if_splits)

lemma perturbation_frame:
  assumes tr: "trajectory Nx Ny Nz Nn Nm Np Ns sol = Inr (Ck, Fk, dCk)"
  shows "\<exists>T. shape Ck = [T, Ns * Nn * Nm * Np, Ny, Nx, Nz] \<and> shape dCk = shape Ck \<and>
    (\<forall>t a y x z. t < T \<and> a < Ns * Nn * Nm * Np \<and> y < Ny \<and> x < Nx \<and> z < Nz \<and>
        \<not> ((a = 0 \<or> a = Nn * Nm * Np) \<and> y = 0 \<and> x = 1 \<and> z = 0) \<longrightarrow>
        entry dCk [t, a, y, x, z] = entry Ck [t, a, y, x, z])"
proof -
  from trajectory_Inr [OF tr] obtain n d0 where
    s: "shape Ck = [n, Ns * Nn * Nm * Np, Ny, Nx, Nz]" and w: "well_shaped Ck"
    and 1: "at_set0 0 0 1 0 Ck = Inr d0" and 2: "at_set0 (Nn * Nm * Np) 0 1 0 d0 = Inr dCk"
    by blast
  have s0: "shape d0 = [n, Ns * Nn * Nm * Np, Ny, Nx, Nz]" and w0: "well_shaped d0"
    using 1 s w by (auto simp: at_set0_def well_shaped_def split: if_splits)
  have sd: "shape dCk = shape Ck"
    using 2 s0 s by (auto simp: at_set0_def split: if_splits)
  have "entry dCk [t, a, y, x, z] = entry Ck [t, a, y, x, z]"
    if "t < n" "a < Ns * Nn * Nm * Np" "y < Ny" "x < Nx" "z < Nz"
      and "\<not> ((a = 0 \<or> a = Nn * Nm * Np) \<and> y = 0 \<and> x = 1 \<and> z = 0)" for t a y x z
  proof -
    have "entry d0 [t, a, y, x, z] = entry Ck [t, a, y, x, z]"
      using at_set0_frame(1) [OF 1 s that(1-5) w] that(6) by auto
    moreover have "entry dCk [t, a, y, x, z] = entry d0 [t, a, y, x, z]"
      using at_set0_frame(1) [OF 2 s0 that(1-5) w0] that(6) by auto
    ultimately show ?thesis by simp
  qed
  with s sd show ?thesis by blast
qed

lemma simulation_perturbation:
  assumes sim: "simulation M Dr inp Nx Ny Nz Nn Nm Np Ns timesteps dt solver = Inr out"
    and init: "initialize_simulation_parameters Dr inp (Nx, Ny, Nz, Nn, Nm, Np, Ns) timesteps dt = Inr p"
    and fresh: "''Ck'' \<notin> dom p" "''dCk'' \<notin> dom p"
    and keep: "keeps (diagnostics Dr) {''Ck'', ''dCk''}"
  shows "\<exists>Ck dCk T. out ''Ck'' = Some Ck \<and> out ''dCk'' = Some dCk \<and>
    shape Ck = [T, Ns * Nn * Nm * Np, Ny, Nx, Nz] \<and> shape dCk = shape Ck \<and>
    (\<forall>t a y x z. t < T \<and> a < Ns * Nn * Nm * Np \<and> y < Ny \<and> x < Nx \<and> z < Nz \<and>
        \<not> ((a = 0 \<or> a = Nn * Nm * Np) \<and> y = 0 \<and> x = 1 \<and> z = 0) \<longrightarrow>
        entry dCk [t, a, y, x, z] = entry Ck [t, a, y, x, z])"
proof -
  from simulation_Inr [OF sim] init obtain tm sol Ck Fk dCk where
    tr: "trajectory Nx Ny Nz Nn Nm Np Ns sol = Inr (Ck, Fk, dCk)"
    and d: "diagnostics Dr ([''Ck'' \<mapsto> Ck, ''Fk'' \<mapsto> Fk, ''time'' \<mapsto> linspace0 tm timesteps,
                      ''dCk'' \<mapsto> dCk] ++ p) = Inr out"
    by auto
  let ?t = "[''Ck'' \<mapsto> Ck, ''Fk'' \<mapsto> Fk, ''time'' \<mapsto> linspace0 tm timesteps, ''dCk'' \<mapsto> dCk]"
  have "out ''Ck'' = (?t ++ p) ''Ck''" "out ''dCk'' = (?t ++ p) ''dCk''"
    using keep d unfolding keeps_def by blast+
  with fresh have "out ''Ck'' = Some Ck" "out ''dCk'' = Some dCk"
    by (auto simp: map_add_def domIff split: option.splits)
  with perturbation_frame [OF tr] show ?thesis by blast
qed

subsection \<open>Shapes and the time grid\<close>

lemma linspace0_scalar:
  assumes "shape tm = []" and "data tm = [\<tau>]"
  shows "linspace0 tm n =
    NDArray [n] (map (\<lambda>i. if n \<le> 1 then 0 else of_nat i * \<tau> / of_nat (n - 1)) [0..<n])"
proof -
  have "concat (map (\<lambda>i. [f i]) xs) = map f xs" for f :: "nat \<Rightarrow> complex" and xs
    by (induction xs) simp_all
  then show ?thesis using assms by (simp add: linspace0_def)
qed

lemma linspace0_grid:
  assumes "shape tm = []" and "data tm = [\<tau>]"
  shows "shape (linspace0 tm n) = [n]"
    and "length (data (linspace0 tm n)) = n"
    and "0 < n \<Longrightarrow> hd (data (linspace0 tm n)) = 0"
    and "2 \<le> n \<Longrightarrow> last (data (linspace0 tm n)) = \<tau>"
    and "Suc i < n \<Longrightarrow>
           data (linspace0 tm n) ! Suc i - data (linspace0 tm n) ! i = \<tau> / of_nat (n - 1)"
proof -
  note l = linspace0_scalar [OF assms, of n]
  show "shape (linspace0 tm n) = [n]" "length (data (linspace0 tm n)) = n"
    by (simp_all add: l)
  show "hd (data (linspace0 tm n)) = 0" if "0 < n"
    using that by (simp add: l hd_map upt_conv_Cons)
  show "last (data (linspace0 tm n)) = \<tau>" if "2 \<le> n"
  proof -
    from that have "[0..<n] \<noteq> []" by simp
    then have "last (data (linspace0 tm n)) =
        (if n \<le> 1 then 0 else of_nat (last [0..<n]) * \<tau> / of_nat (n - 1))"
      by (simp add: l last_map)
    also have "last [0..<n] = n - 1" using that by (simp add: last_upt)
    finally show ?thesis using that by simp
  qed
  show "data (linspace0 tm n) ! Suc i - data (linspace0 tm n) ! i = \<tau> / of_nat (n - 1)"
    if "Suc i < n"
  proof -
    have "of_nat (Suc i) * \<tau> / of_nat (n - 1) - of_nat i * \<tau> / of_nat (n - 1)
        = (of_nat (Suc i) * \<tau> - of_nat i * \<tau>) / of_nat (n - 1)"
      by (simp only: diff_divide_distrib)
    also have "of_nat (Suc i) * \<tau> - of_nat i * \<tau> = \<tau>"
      by (simp add: algebra_simps)
    finally show ?thesis using that by (simp add: l)
  qed
qed

lemma simulation_shapes:
  assumes sim: "simulation M Dr inp Nx Ny Nz Nn Nm Np Ns timesteps dt solver = Inr out"
    and init: "initialize_simulation_parameters Dr inp (Nx, Ny, Nz, Nn, Nm, Np, Ns) timesteps dt = Inr p"
    and tm: "p ''t_max'' = Some tm" "shape tm = []" "data tm = [\<tau>]"
    and fresh: "''Ck'' \<notin> dom p" "''Fk'' \<notin> dom p" "''time'' \<notin> dom p"
    and keep: "keeps (diagnostics Dr) {''Ck'', ''Fk'', ''time''}"
    and contract: "samples_at_saveat (diffeqsolve Dr)"
  shows "\<exists>Ck Fk time. out ''Ck'' = Some Ck \<and> out ''Fk'' = Some Fk \<and> out ''time'' = Some time \<and>
    shape Ck = [timesteps, Ns * Nn * Nm * Np, Ny, Nx, Nz] \<and>
    shape Fk = [timesteps, 6, Ny, Nx, Nz] \<and>
    shape time = [timesteps] \<and> length (data time) = timesteps \<and>
    (\<forall>i. Suc i < timesteps \<longrightarrow> data time ! Suc i - data time ! i = \<tau> / of_nat (timesteps - 1)) \<and>
    (0 < timesteps \<longrightarrow> hd (data time) = 0) \<and>
    (2 \<le> timesteps \<longrightarrow> last (data time) = \<tau>)"
proof -
  from simulation_Inr [OF sim] init tm(1) obtain c0 f0 tol args sol Ck Fk dCk where
    s: "diffeqsolve Dr (solver_request M Nx Ny Nz Nn Nm Np Ns timesteps dt solver c0 f0 tm tol args)
       = Inr sol"
    and tr: "trajectory Nx Ny Nz Nn Nm Np Ns sol = Inr (Ck, Fk, dCk)"
    and d: "diagnostics Dr ([''Ck'' \<mapsto> Ck, ''Fk'' \<mapsto> Fk, ''time'' \<mapsto> linspace0 tm timesteps,
                      ''dCk'' \<mapsto> dCk] ++ p) = Inr out"
    by auto
  let ?time = "linspace0 tm timesteps"
  let ?t = "[''Ck'' \<mapsto> Ck, ''Fk'' \<mapsto> Fk, ''time'' \<mapsto> ?time, ''dCk'' \<mapsto> dCk]"
  have "out ''Ck'' = (?t ++ p) ''Ck''" "out ''Fk'' = (?t ++ p) ''Fk''"
    "out ''time'' = (?t ++ p) ''time''"
    using keep d unfolding keeps_def by blast+
  with fresh have out: "out ''Ck'' = Some Ck" "out ''Fk'' = Some Fk" "out ''time'' = Some ?time"
    by (auto simp: map_add_def domIff split: option.splits)
  from contract s have "shape (sol_ts sol) = shape ?time"
    by (auto simp: samples_at_saveat_def solver_request_def)
  then have "len (sol_ts sol) = Inr timesteps"
    by (simp add: len_def linspace0_grid(1) [OF tm(2,3)])
  with trajectory_Inr [OF tr] have "shape Ck = [timesteps, Ns * Nn * Nm * Np, Ny, Nx, Nz]"
    "shape Fk = [timesteps, 6, Ny, Nx, Nz]"
    by auto
  with out linspace0_grid [OF tm(2,3), where n = timesteps] show ?thesis
    by (intro exI [of _ Ck] exI [of _ Fk] exI [of _ ?time]) simp
qed

lemma simulation_default_shapes:
  assumes "simulation M Dr inp 33 1 1 20 1 1 2 200 dt solver = Inr out"
    and "initialize_simulation_parameters Dr inp (33, 1, 1, 20, 1, 1, 2) 200 dt = Inr p"
    and "p ''t_max'' = Some tm" and "shape tm = []" and "data tm = [\<tau>]"
    and "''Ck'' \<notin> dom p" and "''Fk'' \<notin> dom p" and "''time'' \<notin> dom p"
    and "keeps (diagnostics Dr) {''Ck'', ''Fk'', ''time''}"
    and "samples_at_saveat (diffeqsolve Dr)"
  shows "\<exists>Ck Fk time. out ''Ck'' = Some Ck \<and> out ''Fk'' = Some Fk \<and> out ''time'' = Some time \<and>
    shape Ck = [200, 40, 1, 33, 1] \<and> shape Fk = [200, 6, 1, 33, 1] \<and>
    length (data time) = 200 \<and> hd (data time) = 0 \<and> last (data time) = \<tau>"
  using simulation_shapes [OF assms] by auto

subsection \<open>The concrete run\<close>

lemmas sim_defs = simulation_def trajectory_def build_args_def lookup_def linspace0_def len_def
  cols_upto_neg_def cols_from_neg_def at_set0_def example_parameters_def example_driver_def
  reshape_def rows_def scalar_def enumerate_eq_zip

lemma example_run1:
  "\<exists>out. simulation example_model example_driver Map.empty 5 1 1 1 1 1 2 1 (1 / 100) () = Inr out"
  by (simp add: sim_defs upt_rec)

lemma example_run2:
  "\<exists>out. simulation example_model example_driver Map.empty 5 1 1 1 1 1 2 2 (1 / 100) () = Inr out"
  by (simp add: sim_defs upt_rec)

lemma example_init:
  "initialize_simulation_parameters example_driver Map.empty (5, 1, 1, 1, 1, 1, 2) T (1 / 100)
     = Inr example_parameters"
  by (simp add: example_driver_def)

lemma example_keys:
  "example_parameters ''Ck_0'' = Some (NDArray [2, 1, 5, 1] [1, 2, 3, 4, 5, 6, 7, 8, 9, 10])"
  "example_parameters ''Fk_0'' = Some (NDArray [6, 1, 5, 1]
     [0, 0, 0, 0, 0, 0, 0, 0, 0, 0, 0, 0, 0, 0, 0, 0, 0, 0, 0, 0, 0, 0, 0, 0, 0, 0, 0, 0, 0, 0])"
  "example_parameters ''t_max'' = Some (NDArray [] [4])"
  "example_parameters ''ode_tolerance'' = Some (NDArray [] [1 / 1000])"
  "''Ck'' \<notin> dom example_parameters" "''Fk'' \<notin> dom example_parameters"
  "''time'' \<notin> dom example_parameters" "''dCk'' \<notin> dom example_parameters"
  by (simp_all add: example_parameters_def scalar_def dom_map_of_conv_image_fst)

lemma example_args: "\<exists>args. build_args example_parameters 5 1 1 1 1 1 2 = Inr args"
  by (simp add: build_args_def lookup_def example_parameters_def)

lemma example_keeps:
  "keeps (diagnostics example_driver) ({''Ck'', ''Fk'', ''time'', ''dCk''} \<union> dom example_parameters)"
  by (auto simp: keeps_def example_driver_def example_parameters_def dom_map_of_conv_image_fst)

lemma keeps_mono: "keeps f K \<Longrightarrow> K' \<subseteq> K \<Longrightarrow> keeps f K'"
  by (auto simp: keeps_def)

lemma example_samples: "samples_at_saveat (diffeqsolve example_driver)"
  by (auto simp: samples_at_saveat_def example_driver_def ebind_Inr_iff)

section \<open>Claims about simulation\<close>

text \<open>
  C2, as the specification states it, does not hold of the code: \<open>dCk\<close> is \<open>Ck\<close> with the
  entries at x-index 1 of the first two species set to zero, which is the centred zero
  mode only for two or three modes along x.  On the concrete run, with five modes along x,
  the code zeroes positions 1 and 6 of the ten entries, the specification positions 2
  and 7.
\<close>

theorem perturbation_misses_zero_mode:
  "output_entry ''Ck'' (simulation example_model example_driver Map.empty 5 1 1 1 1 1 2 1 (1 / 100) ())
     = Inr (NDArray [1, 2, 1, 5, 1] [1, 2, 3, 4, 5, 6, 7, 8, 9, 10]) \<and>
   output_entry ''dCk'' (simulation example_model example_driver Map.empty 5 1 1 1 1 1 2 1 (1 / 100) ())
     = Inr (NDArray [1, 2, 1, 5, 1] [1, 0, 3, 4, 5, 6, 0, 8, 9, 10]) \<and>
   spec_perturbation 1 1 1 2 (NDArray [1, 2, 1, 5, 1] [1, 2, 3, 4, 5, 6, 7, 8, 9, 10])
     = NDArray [1, 2, 1, 5, 1] [1, 2, 0, 4, 5, 6, 7, 0, 9, 10]"
  by (simp add: output_entry_def sim_defs upt_rec spec_perturbation_def zero_mode_def)

text \<open>
  C5 as stated fails for a single output time: the grid is then the single point 0, whose
  last element is not \<open>t_max\<close>.
\<close>

theorem time_grid_single_sample_counterexample:
  "output_entry ''time'' (simulation example_model example_driver Map.empty 5 1 1 1 1 1 2 1 (1 / 100) ())
     = Inr (NDArray [1] [0]) \<and>
   output_entry ''t_max'' (simulation example_model example_driver Map.empty 5 1 1 1 1 1 2 1 (1 / 100) ())
     = Inr (NDArray [] [4])"
  by (simp add: output_entry_def sim_defs upt_rec)

text \<open>
  C5, amended: for every run of \<open>simulation\<close> that returns, with a scalar \<open>t_max\<close>, an
  integrator that returns one sample per requested time, and no parameter named \<open>Ck\<close>,
  \<open>Fk\<close> or \<open>time\<close>, the returned \<open>Ck\<close> has shape \<open>(timesteps, Ns*Nn*Nm*Np, Ny, Nx, Nz)\<close>,
  \<open>Fk\<close> has shape \<open>(timesteps, 6, Ny, Nx, Nz)\<close>, and \<open>time\<close> is a uniform grid of length
  \<open>timesteps\<close> whose first element is 0 (when there is one) and whose last element is
  \<open>t_max\<close> when \<open>timesteps \<ge> 2\<close>.  The default scenario is lemma
  \<open>simulation_default_shapes\<close>.
\<close>

theorem simulation_output_shapes:
  assumes "simulation M Dr inp Nx Ny Nz Nn Nm Np Ns timesteps dt solver = Inr out"
    and "initialize_simulation_parameters Dr inp (Nx, Ny, Nz, Nn, Nm, Np, Ns) timesteps dt = Inr p"
    and "p ''t_max'' = Some tm" and "shape tm = []" and "data tm = [\<tau>]"
    and "''Ck'' \<notin> dom p" and "''Fk'' \<notin> dom p" and "''time'' \<notin> dom p"
    and "keeps (diagnostics Dr) {''Ck'', ''Fk'', ''time''}"
    and "samples_at_saveat (diffeqsolve Dr)"
  shows "\<exists>Ck Fk time. out ''Ck'' = Some Ck \<and> out ''Fk'' = Some Fk \<and> out ''time'' = Some time \<and>
    shape Ck = [timesteps, Ns * Nn * Nm * Np, Ny, Nx, Nz] \<and>
    shape Fk = [timesteps, 6, Ny, Nx, Nz] \<and>
    shape time = [timesteps] \<and> length (data time) = timesteps \<and>
    (\<forall>i. Suc i < timesteps \<longrightarrow> data time ! Suc i - data time ! i = \<tau> / of_nat (timesteps - 1)) \<and>
    (0 < timesteps \<longrightarrow> hd (data time) = 0) \<and>
    (2 \<le> timesteps \<longrightarrow> last (data time) = \<tau>)"
  using assms by (rule simulation_shapes)

theorem simulation_output_shapes_witness:
  "\<exists>out. simulation example_model example_driver Map.empty 5 1 1 1 1 1 2 2 (1 / 100) () = Inr out \<and>
     initialize_simulation_parameters example_driver Map.empty (5, 1, 1, 1, 1, 1, 2) 2 (1 / 100)
       = Inr example_parameters \<and>
     example_parameters ''t_max'' = Some (NDArray [] [4]) \<and>
     shape (NDArray [] [4]) = [] \<and> data (NDArray [] [4]) = [4] \<and>
     ''Ck'' \<notin> dom example_parameters \<and> ''Fk'' \<notin> dom example_parameters \<and>
     ''time'' \<notin> dom example_parameters \<and>
     keeps (diagnostics example_driver) {''Ck'', ''Fk'', ''time''} \<and>
     samples_at_saveat (diffeqsolve example_driver) \<and>
     (\<exists>Ck Fk time. out ''Ck'' = Some Ck \<and> out ''Fk'' = Some Fk \<and> out ''time'' = Some time \<and>
        shape Ck = [2, 2 * 1 * 1 * 1, 1, 5, 1] \<and> shape Fk = [2, 6, 1, 5, 1] \<and>
        shape time = [2] \<and> length (data time) = 2 \<and>
        (\<forall>i. Suc i < 2 \<longrightarrow> data time ! Suc i - data time ! i = 4 / of_nat (2 - 1)) \<and>
        (0 < (2::nat) \<longrightarrow> hd (data time) = 0) \<and>
        (2 \<le> (2::nat) \<longrightarrow> last (data time) = 4))"
proof -
  obtain out where
    out: "simulation example_model example_driver Map.empty 5 1 1 1 1 1 2 2 (1 / 100) () = Inr out"
    using example_run2 by blast
  have k: "keeps (diagnostics example_driver) {''Ck'', ''Fk'', ''time''}"
    using example_keeps by (rule keeps_mono) auto
  have s: "shape (NDArray [] [4]) = []" "data (NDArray [] [4]) = [4]" by simp_all
  note hyps = out example_init [of 2] example_keys(3) s example_keys(5,6,7) k example_samples
  show ?thesis
    by (rule exI [of _ out]) (intro conjI hyps simulation_output_shapes [OF hyps])
qed

text \<open>
  C7: \<open>simulation\<close> calls the integrator on one request: the vector field is \<open>ode_system\<close>
  applied to the mode counts, both tolerances are \<open>ode_tolerance\<close>, the step bound is
  1000000, the sample times are the uniform grid.  If the integrator fails on this request,
  \<open>simulation\<close> fails with the same error; and the result of \<open>simulation\<close> depends on the
  integrator only through its answer to this request.
\<close>

theorem simulation_integrator_call:
  assumes "initialize_simulation_parameters Dr inp (Nx, Ny, Nz, Nn, Nm, Np, Ns) timesteps dt = Inr p"
    and "p ''Ck_0'' = Some c0" and "p ''Fk_0'' = Some f0" and "p ''t_max'' = Some tm"
    and "p ''ode_tolerance'' = Some tol" and "build_args p Nx Ny Nz Nn Nm Np Ns = Inr args"
  shows "\<exists>req.
     req_term req = ode_system M Nx Ny Nz Nn Nm Np Ns \<and>
     req_rtol req = tol \<and> req_atol req = tol \<and> req_max_steps req = 1000000 \<and>
     req_saveat_ts req = linspace0 tm timesteps \<and>
     req_y0 req = data c0 @ data f0 \<and> req_args req = args \<and> req_solver req = solver \<and>
     req_t0 req = 0 \<and> req_t1 req = tm \<and> req_dt0 req = dt \<and>
     (\<forall>e. diffeqsolve Dr req = Inl e \<longrightarrow>
          simulation M Dr inp Nx Ny Nz Nn Nm Np Ns timesteps dt solver = Inl e) \<and>
     (\<forall>s. s req = diffeqsolve Dr req \<longrightarrow>
          simulation M (Dr\<lparr>diffeqsolve := s\<rparr>) inp Nx Ny Nz Nn Nm Np Ns timesteps dt solver =
          simulation M Dr inp Nx Ny Nz Nn Nm Np Ns timesteps dt solver)"
  using assms by (rule simulation_one_call)

theorem simulation_integrator_call_witness:
  "\<exists>args.
     initialize_simulation_parameters failing_driver Map.empty (5, 1, 1, 1, 1, 1, 2) 2 (1 / 100)
       = Inr example_parameters \<and>
     example_parameters ''Ck_0'' = Some (NDArray [2, 1, 5, 1] [1, 2, 3, 4, 5, 6, 7, 8, 9, 10]) \<and>
     example_parameters ''Fk_0'' = Some (NDArray [6, 1, 5, 1]
       [0, 0, 0, 0, 0, 0, 0, 0, 0, 0, 0, 0, 0, 0, 0, 0, 0, 0, 0, 0, 0, 0, 0, 0, 0, 0, 0, 0, 0, 0]) \<and>
     example_parameters ''t_max'' = Some (NDArray [] [4]) \<and>
     example_parameters ''ode_tolerance'' = Some (NDArray [] [1 / 1000]) \<and>
     build_args example_parameters 5 1 1 1 1 1 2 = Inr args \<and>
     simulation example_model failing_driver Map.empty 5 1 1 1 1 1 2 2 (1 / 100) ()
       = Inl (SolverError 1000000)"
proof -
  obtain args where a: "build_args example_parameters 5 1 1 1 1 1 2 = Inr args"
    using example_args by blast
  have i: "initialize_simulation_parameters failing_driver Map.empty (5, 1, 1, 1, 1, 1, 2) 2 (1 / 100)
       = Inr example_parameters"
    by (simp add: failing_driver_def example_driver_def)
  from simulation_integrator_call [OF i example_keys(1-4) a, of example_model "()"]
  obtain req where "req_max_steps req = 1000000"
    and "\<forall>e. diffeqsolve failing_driver req = Inl e \<longrightarrow>
          simulation example_model failing_driver Map.empty 5 1 1 1 1 1 2 2 (1 / 100) () = Inl e"
    by blast
  then have "simulation example_model failing_driver Map.empty 5 1 1 1 1 1 2 2 (1 / 100) ()
       = Inl (SolverError 1000000)"
    by (simp add: failing_driver_def)
  with i a example_keys(1-4) show ?thesis by blast
qed

text \<open>
  C8: the dictionary returned by \<open>simulation\<close> has the keys \<open>Ck\<close>, \<open>Fk\<close>, \<open>time\<close>, \<open>dCk\<close> and
  every key of the parameter dictionary, and under every parameter key what the parameter
  dictionary holds there, provided \<open>diagnostics\<close> leaves these entries as they are.
\<close>

theorem simulation_returns_merged_parameters:
  assumes "simulation M Dr inp Nx Ny Nz Nn Nm Np Ns timesteps dt solver = Inr out"
    and "initialize_simulation_parameters Dr inp (Nx, Ny, Nz, Nn, Nm, Np, Ns) timesteps dt = Inr p"
    and "keeps (diagnostics Dr) ({''Ck'', ''Fk'', ''time'', ''dCk''} \<union> dom p)"
  shows "{''Ck'', ''Fk'', ''time'', ''dCk''} \<union> dom p \<subseteq> dom out \<and> (\<forall>k\<in>dom p. out k = p k)"
  using assms by (rule simulation_output_keys)

theorem simulation_returns_merged_parameters_witness:
  "\<exists>out. simulation example_model example_driver Map.empty 5 1 1 1 1 1 2 1 (1 / 100) () = Inr out \<and>
     initialize_simulation_parameters example_driver Map.empty (5, 1, 1, 1, 1, 1, 2) 1 (1 / 100)
       = Inr example_parameters \<and>
     keeps (diagnostics example_driver)
       ({''Ck'', ''Fk'', ''time'', ''dCk''} \<union> dom example_parameters) \<and>
     {''Ck'', ''Fk'', ''time'', ''dCk''} \<union> dom example_parameters \<subseteq> dom out \<and>
     (\<forall>k\<in>dom example_parameters. out k = example_parameters k)"
proof -
  obtain out where
    out: "simulation example_model example_driver Map.empty 5 1 1 1 1 1 2 1 (1 / 100) () = Inr out"
    using example_run1 by blast
  show ?thesis
    using out example_init [of 1] example_keeps
      simulation_returns_merged_parameters [OF out example_init example_keeps]
    by blast
qed

text \<open>
  C9: in every run that returns, \<open>dCk\<close> has the shape of \<open>Ck\<close> and agrees with it at every
  entry other than those at species-moment index 0 or \<open>Nn*Nm*Np\<close> and spatial position
  \<open>(y, x, z) = (0, 1, 0)\<close>: at most two entries per time sample differ, and none of a
  third or later species.
\<close>

theorem simulation_perturbation_frame:
  assumes "simulation M Dr inp Nx Ny Nz Nn Nm Np Ns timesteps dt solver = Inr out"
    and "initialize_simulation_parameters Dr inp (Nx, Ny, Nz, Nn, Nm, Np, Ns) timesteps dt = Inr p"
    and "''Ck'' \<notin> dom p" and "''dCk'' \<notin> dom p"
    and "keeps (diagnostics Dr) {''Ck'', ''dCk''}"
  shows "\<exists>Ck dCk T. out ''Ck'' = Some Ck \<and> out ''dCk'' = Some dCk \<and>
    shape Ck = [T, Ns * Nn * Nm * Np, Ny, Nx, Nz] \<and> shape dCk = shape Ck \<and>
    (\<forall>t a y x z. t < T \<and> a < Ns * Nn * Nm * Np \<and> y < Ny \<and> x < Nx \<and> z < Nz \<and>
        \<not> ((a = 0 \<or> a = Nn * Nm * Np) \<and> y = 0 \<and> x = 1 \<and> z = 0) \<longrightarrow>
        entry dCk [t, a, y, x, z] = entry Ck [t, a, y, x, z])"
  using assms by (rule simulation_perturbation)

theorem simulation_perturbation_frame_witness:
  "\<exists>out. simulation example_model example_driver Map.empty 5 1 1 1 1 1 2 1 (1 / 100) () = Inr out \<and>
     initialize_simulation_parameters example_driver Map.empty (5, 1, 1, 1, 1, 1, 2) 1 (1 / 100)
       = Inr example_parameters \<and>
     ''Ck'' \<notin> dom example_parameters \<and> ''dCk'' \<notin> dom example_parameters \<and>
     keeps (diagnostics example_driver) {''Ck'', ''dCk''} \<and>
     (\<exists>Ck dCk T. out ''Ck'' = Some Ck \<and> out ''dCk'' = Some dCk \<and>
        shape Ck = [T, 2 * 1 * 1 * 1, 1, 5, 1] \<and> shape dCk = shape Ck \<and>
        (\<forall>t a y x z. t < T \<and> a < 2 * 1 * 1 * 1 \<and> y < 1 \<and> x < 5 \<and> z < 1 \<and>
            \<not> ((a = 0 \<or> a = 1 * 1 * 1) \<and> y = 0 \<and> x = 1 \<and> z = 0) \<longrightarrow>
            entry dCk [t, a, y, x, z] = entry Ck [t, a, y, x, z]))"
proof -
  obtain out where
    out: "simulation example_model example_driver Map.empty 5 1 1 1 1 1 2 1 (1 / 100) () = Inr out"
    using example_run1 by blast
  have k: "keeps (diagnostics example_driver) {''Ck'', ''dCk''}"
    using example_keeps by (rule keeps_mono) auto
  show ?thesis
    using out example_init [of 1] example_keys(5,8) k
      simulation_perturbation_frame [OF out example_init example_keys(5,8) k]
    by blast
qed

end
